theory Spec2Isabelle
  imports Main "HOL-Library.Word"
begin

section \<open>The Python binding of libslp (slpmodule.c)\<close>

text \<open>
  The module is a thin layer between Python and the native SLP library: it parses the
  Python arguments, calls the native function, and turns the native error code or result
  into a Python exception or object. The development embeds the functions of
  \<^verbatim>\<open>slpmodule.c\<close> one by one, under their own names.
\<close>

subsection \<open>Error codes and their names\<close>

text \<open>
  \<^verbatim>\<open>SLPError\<close> is a C enumeration, read as an \<open>int\<close>. The only arithmetic on it is
  \<open>-err\<close> under the guard \<open>-26 \<le> err \<le> 0\<close>, which cannot overflow.
\<close>

type_synonym SLPError = int

definition SLP_OK :: SLPError where
  "SLP_OK = 0"

text \<open>
  The static table \<^verbatim>\<open>err_msg\<close> is written with designated initialisers. The array has
  27 elements; an index that has no initialiser (5, 8 to 12, 14 and 16) holds the null
  pointer, which is \<open>None\<close> here.
\<close>

definition err_msg :: "string option list" where
  "err_msg =
    [ Some ''SLP_OK'',
      Some ''SLP_LANGUAGE_NOT_SUPPORTED'',
      Some ''SLP_PARSE_ERROR'',
      Some ''SLP_INVALID_REGISTRATION'',
      Some ''SLP_SCOPE_NOT_SUPPORTED'',
      None,
      Some ''SLP_AUTHENTICATION_ABSENT'',
      Some ''SLP_AUTHENTICATION_FAILED'',
      None, None, None, None, None,
      Some ''SLP_INVALID_UPDATE'',
      None,
      Some ''SLP_REFRESH_REJECTED'',
      None,
      Some ''SLP_NOT_IMPLEMENTED'',
      Some ''SLP_BUFFER_OVERFLOW'',
      Some ''SLP_NETWORK_TIMED_OUT'',
      Some ''SLP_NETWORK_INIT_FAILED'',
      Some ''SLP_MEMORY_ALLOC_FAILED'',
      Some ''SLP_PARAMETER_BAD'',
      Some ''SLP_NETWORK_ERROR'',
      Some ''SLP_INTERNAL_SYSTEM_ERROR'',
      Some ''SLP_HANDLE_IN_USE'',
      Some ''SLP_TYPE_ERROR'' ]"

text \<open>The result is a \<^verbatim>\<open>const char *\<close>: \<open>None\<close> is the null pointer.\<close>

definition get_slp_error_msg :: "SLPError \<Rightarrow> string option" where
  "get_slp_error_msg err =
    (if err \<le> 0 \<and> err \<ge> - 26 then err_msg ! nat (- err)
     else if err = 1 then Some ''SLP_LAST_CALL''
     else Some ''UNKNOWN_ERROR'')"

subsection \<open>Python objects as the module sees them\<close>

text \<open>
  Only what the module inspects of a Python object is kept: its kind, its truth value,
  whether it is callable, and for a capsule the pointer and the name it wraps. A capsule
  is never modified by the module (no call sets its pointer, name or destructor), so a
  capsule is the value \<open>PyCapsule pointer name\<close>. \<open>PyInst i t\<close> is any other object,
  told apart by \<open>i\<close>, whose truth test gives \<open>t\<close>; \<open>None\<close> there is a truth test that
  raises.
\<close>

datatype pyobj =
    PyNone
  | PyBool bool
  | PyLong int
  | PyStr string
  | PyCapsule nat "string option"
  | PyFunc nat
  | PyInst nat "bool option"
  | PyTuple "pyobj list"

datatype pyexc =
    TypeError | RuntimeError | MemoryError | ValueError | OverflowError | SystemError
  | UnicodeDecodeError

text \<open>\<^verbatim>\<open>PyObject_IsTrue\<close>: 1 for true, 0 for false, -1 when the test raises.\<close>

fun PyObject_IsTrue :: "pyobj \<Rightarrow> int" where
  "PyObject_IsTrue PyNone = 0"
| "PyObject_IsTrue (PyBool b) = (if b then 1 else 0)"
| "PyObject_IsTrue (PyLong n) = (if n = 0 then 0 else 1)"
| "PyObject_IsTrue (PyStr s) = (if s = [] then 0 else 1)"
| "PyObject_IsTrue (PyCapsule p n) = 1"
| "PyObject_IsTrue (PyFunc f) = 1"
| "PyObject_IsTrue (PyInst i None) = - 1"
| "PyObject_IsTrue (PyInst i (Some b)) = (if b then 1 else 0)"
| "PyObject_IsTrue (PyTuple xs) = (if xs = [] then 0 else 1)"

fun PyCallable_Check :: "pyobj \<Rightarrow> bool" where
  "PyCallable_Check (PyFunc f) = True"
| "PyCallable_Check ob = False"

text \<open>A native pointer is an address; 0 is \<^verbatim>\<open>NULL\<close>.\<close>

type_synonym SLPHandle = nat

fun PyCapsule_IsValid :: "pyobj \<Rightarrow> string option \<Rightarrow> bool" where
  "PyCapsule_IsValid (PyCapsule p n) name = (p \<noteq> 0 \<and> n = name)"
| "PyCapsule_IsValid ob name = False"

fun PyCapsule_GetPointer :: "pyobj \<Rightarrow> string option \<Rightarrow> nat" where
  "PyCapsule_GetPointer (PyCapsule p n) name = (if p \<noteq> 0 \<and> n = name then p else 0)"
| "PyCapsule_GetPointer ob name = 0"

subsection \<open>Building Python values\<close>

text \<open>
  A C string is a list of bytes, and a Python string is kept as the bytes of its UTF-8
  form. \<^verbatim>\<open>Py_BuildValue\<close> with the unit \<^verbatim>\<open>s\<close> or \<^verbatim>\<open>z\<close> turns a null string into \<open>None\<close>
  and decodes any other string as UTF-8 (the module is followed as built for Python 3).
  The decoder is strict: bytes that are not well-formed UTF-8 (a stray continuation
  byte, a truncated or overlong sequence, a surrogate, a code point above
  \<^verbatim>\<open>U+10FFFF\<close>) make it fail, and \<^verbatim>\<open>Py_BuildValue\<close> then returns \<^verbatim>\<open>NULL\<close> with
  \<open>UnicodeDecodeError\<close> set; \<^verbatim>\<open>NULL\<close> is \<open>None\<close> at the outer level here.
\<close>

definition byte_in :: "char \<Rightarrow> nat \<Rightarrow> nat \<Rightarrow> bool" where
  "byte_in c lo hi = (lo \<le> of_char c \<and> (of_char c :: nat) \<le> hi)"

fun utf8_valid :: "string \<Rightarrow> bool" where
  "utf8_valid [] = True"
| "utf8_valid [c] = byte_in c 0 127"
| "utf8_valid [c, c1] =
    (if byte_in c 0 127 then utf8_valid [c1]
     else byte_in c 194 223 \<and> byte_in c1 128 191)"
| "utf8_valid [c, c1, c2] =
    (if byte_in c 0 127 then utf8_valid [c1, c2]
     else if byte_in c 194 223 then byte_in c1 128 191 \<and> utf8_valid [c2]
     else byte_in c 224 239 \<and>
          byte_in c1 (if of_char c = (224 :: nat) then 160 else 128)
                     (if of_char c = (237 :: nat) then 159 else 191) \<and>
          byte_in c2 128 191)"
| "utf8_valid (c # c1 # c2 # c3 # cs) =
    (if byte_in c 0 127 then utf8_valid (c1 # c2 # c3 # cs)
     else if byte_in c 194 223 then byte_in c1 128 191 \<and> utf8_valid (c2 # c3 # cs)
     else if byte_in c 224 239 then
       byte_in c1 (if of_char c = (224 :: nat) then 160 else 128)
                  (if of_char c = (237 :: nat) then 159 else 191) \<and>
       byte_in c2 128 191 \<and> utf8_valid (c3 # cs)
     else byte_in c 240 244 \<and>
          byte_in c1 (if of_char c = (240 :: nat) then 144 else 128)
                     (if of_char c = (244 :: nat) then 143 else 191) \<and>
          byte_in c2 128 191 \<and> byte_in c3 128 191 \<and> utf8_valid cs)"

text \<open>The equations of the decoder are unfolded only where a string is evaluated.\<close>

declare utf8_valid.simps [simp del]

fun Py_BuildValue_z :: "string option \<Rightarrow> pyobj option" where
  "Py_BuildValue_z None = Some PyNone"
| "Py_BuildValue_z (Some s) = (if utf8_valid s then Some (PyStr s) else None)"

text \<open>
  \<^verbatim>\<open>Py_BuildValue\<close> with several units builds a tuple of the values of its units, and
  returns \<^verbatim>\<open>NULL\<close> as soon as one of them cannot be built. The units \<^verbatim>\<open>O\<close> and \<^verbatim>\<open>i\<close> always
  give a value (the object itself, a Python integer).
\<close>

definition Py_BuildValue_tuple :: "pyobj option list \<Rightarrow> pyobj option" where
  "Py_BuildValue_tuple units = map_option PyTuple (those units)"

subsection \<open>Argument parsing\<close>

text \<open>
  \<^verbatim>\<open>PyArg_ParseTuple\<close> of the interpreter converts each argument by its format unit and
  stores the C value through the pointer it was given. \<open>cval\<close> is what a C variable holds afterwards, tagged
  with the unit that wrote it: \<^verbatim>\<open>O\<close> writes an object pointer, \<^verbatim>\<open>s\<close> and \<^verbatim>\<open>z\<close> a
  \<^verbatim>\<open>char *\<close> (\<^verbatim>\<open>z\<close> accepts \<open>None\<close> and writes \<^verbatim>\<open>NULL\<close>), \<^verbatim>\<open>i\<close> a C \<^verbatim>\<open>int\<close>, \<^verbatim>\<open>H\<close> an
  \<^verbatim>\<open>unsigned short\<close> (without a range check; the module does not use it). The number
  of arguments is checked before any conversion, and the first conversion that fails
  ends the parse. A string with an embedded null character is refused.
\<close>

datatype cval = CObj pyobj | CStr "string option" | CInt int | CUShort int

definition convert_arg :: "char \<Rightarrow> pyobj \<Rightarrow> pyexc + cval" where
  "convert_arg c a =
    (if c = CHR ''O'' then Inr (CObj a)
     else if c = CHR ''s'' then
       (case a of
          PyStr s \<Rightarrow> if CHR 0x00 \<in> set s then Inl ValueError else Inr (CStr (Some s))
        | _ \<Rightarrow> Inl TypeError)
     else if c = CHR ''z'' then
       (case a of
          PyNone \<Rightarrow> Inr (CStr None)
        | PyStr s \<Rightarrow> if CHR 0x00 \<in> set s then Inl ValueError else Inr (CStr (Some s))
        | _ \<Rightarrow> Inl TypeError)
     else if c = CHR ''i'' then
       (case a of
          PyLong n \<Rightarrow>
            if - (2 ^ 31) \<le> n \<and> n < 2 ^ 31 then Inr (CInt n) else Inl OverflowError
        | PyBool b \<Rightarrow> Inr (CInt (if b then 1 else 0))
        | _ \<Rightarrow> Inl TypeError)
     else if c = CHR ''H'' then
       (case a of
          PyLong n \<Rightarrow> Inr (CUShort (n mod 65536))
        | PyBool b \<Rightarrow> Inr (CUShort (if b then 1 else 0))
        | _ \<Rightarrow> Inl TypeError)
     else Inl SystemError)"

fun convert_args :: "string \<Rightarrow> pyobj list \<Rightarrow> pyexc + cval list" where
  "convert_args (c # cs) (a # as) =
    (case convert_arg c a of
       Inl e \<Rightarrow> Inl e
     | Inr v \<Rightarrow> (case convert_args cs as of Inl e \<Rightarrow> Inl e | Inr vs \<Rightarrow> Inr (v # vs)))"
| "convert_args cs as = Inr []"

definition PyArg_ParseTuple :: "pyobj list \<Rightarrow> string \<Rightarrow> pyexc + cval list" where
  "PyArg_ParseTuple args format =
    (if length args \<noteq> length format then Inl TypeError else convert_args format args)"

text \<open>Whether a list of arguments is accepted by a format.\<close>

definition parse_ok :: "pyobj list \<Rightarrow> string \<Rightarrow> bool" where
  "parse_ok args format =
    (case PyArg_ParseTuple args format of Inl e \<Rightarrow> False | Inr vals \<Rightarrow> True)"

text \<open>
  \<^verbatim>\<open>PyObject_IsTrue\<close> on a variable that was declared \<^verbatim>\<open>PyObject *\<close> and filled by the
  parser: the variable points to an object only if the unit \<^verbatim>\<open>O\<close> wrote it. After the
  unit \<^verbatim>\<open>i\<close> it holds the C integer that was stored through its address (in its low
  bytes where a pointer is wider than an \<^verbatim>\<open>int\<close>, the other bytes indeterminate), not
  the address of an object: the truth test dereferences that value and has no defined
  result (\<open>None\<close>).
\<close>

fun PyObject_IsTrue_var :: "cval \<Rightarrow> int option" where
  "PyObject_IsTrue_var (CObj ob) = Some (PyObject_IsTrue ob)"
| "PyObject_IsTrue_var v = None"

text \<open>
  A variable declared \<^verbatim>\<open>unsigned short\<close> and filled by the parser: it has two bytes.
  The unit \<^verbatim>\<open>H\<close> stores two bytes; the unit \<^verbatim>\<open>i\<close> stores the four bytes of an \<^verbatim>\<open>int\<close>
  through the same address and so writes over the two bytes that follow the variable.
  What lies there is not fixed by the source, and from that store on the function has
  no defined behaviour (\<open>None\<close>).
\<close>

fun unsigned_short_var :: "cval \<Rightarrow> int option" where
  "unsigned_short_var (CUShort n) = Some n"
| "unsigned_short_var v = None"

text \<open>
  Whether the parse got as far as converting the unit at index \<open>k\<close> of the format, and
  so stored through the pointer given for it: the number of arguments is right and the
  units up to and including that one convert.
\<close>

definition unit_stored :: "pyobj list \<Rightarrow> string \<Rightarrow> nat \<Rightarrow> bool" where
  "unit_stored args format k =
    (length args = length format \<and>
     (case convert_args (take (Suc k) format) (take (Suc k) args) of
        Inl e \<Rightarrow> False
      | Inr vals \<Rightarrow> True))"

subsection \<open>The state around the module\<close>

record cb_cookie_t =
  py_handle :: pyobj
  py_cookie :: pyobj
  py_callback :: pyobj

text \<open>The calls the module makes into the native library, with their arguments.\<close>

datatype native_call =
    N_SLPOpen "string option" int
  | N_SLPClose SLPHandle
  | N_SLPFindSrvs SLPHandle "string option" "string option" "string option" nat
  | N_SLPFindSrvTypes SLPHandle "string option" "string option" nat
  | N_SLPFindAttrs SLPHandle "string option" "string option" "string option" nat
  | N_SLPReg SLPHandle string int "string option" "string option" int nat
  | N_SLPDereg SLPHandle string nat
  | N_SLPDelAttrs SLPHandle string string nat
  | N_SLPGetRefreshInterval
  | N_SLPFindScopes SLPHandle
  | N_SLPGetProperty string
  | N_SLPSetProperty "string option" "string option"
  | N_SLPParseSrvURL "string option"
  | N_SLPEscape string int
  | N_SLPUnescape string int

text \<open>
  \<open>world\<close> is the state the module reads and changes: the sessions the native library
  has open, its property store, the cookies allocated with \<^verbatim>\<open>malloc\<close> (by address),
  the reference counts of the Python objects, the Python error indicator as a callback
  leaves it (for a function of the method table the exception is part of its result),
  the native calls made so far and the callback deliveries made so far (the callable and
  its argument tuple).
\<close>

record world =
  sessions :: "SLPHandle set"
  props :: "string \<rightharpoonup> string"
  cookies :: "nat \<rightharpoonup> cb_cookie_t"
  ob_refcnt :: "pyobj \<Rightarrow> int"
  pyerr :: "(pyexc \<times> string) option"
  native_log :: "native_call list"
  delivered :: "(pyobj \<times> pyobj) list"

text \<open>
  \<open>env\<close> holds what the module cannot decide itself: what a Python callable returns
  for its argument tuple (\<open>None\<close> when it raises; the callable itself does not touch
  the state kept here), the address \<^verbatim>\<open>malloc\<close> returns (0 when it fails), whether a
  capsule can be allocated, and the answers of the native functions. The request functions of the native library (find, register, deregister,
  delete attributes) run the callbacks and may change the world; they are one field.
  \<^verbatim>\<open>SLPGetRefreshInterval\<close> is declared \<^verbatim>\<open>unsigned short\<close> by the native header.
\<close>

record env =
  py_call :: "pyobj \<Rightarrow> pyobj \<Rightarrow> pyobj option"
  malloc_ret :: nat
  capsule_alloc_ok :: bool
  lib_open :: "string option \<Rightarrow> int \<Rightarrow> SLPError \<times> SLPHandle"
  lib_request :: "native_call \<Rightarrow> world \<Rightarrow> SLPError \<times> world"
  lib_find_scopes :: "SLPHandle \<Rightarrow> SLPError \<times> string option"
  lib_refresh_interval :: "16 word"
  lib_escape :: "string \<Rightarrow> int \<Rightarrow> SLPError \<times> string option"
  lib_unescape :: "string \<Rightarrow> int \<Rightarrow> SLPError \<times> string option"

text \<open>
  What a function of the module's method table gives back to the interpreter: an object;
  \<^verbatim>\<open>NULL\<close> with the exception the module set; \<^verbatim>\<open>NULL\<close> with the exception the argument
  parser set, or with the one \<^verbatim>\<open>Py_BuildValue\<close> set (their messages are the
  interpreter's); or no defined behaviour.
\<close>

datatype outcome =
    Returned pyobj | Raised pyexc string | ArgError pyexc | BuildError pyexc | Undefined

text \<open>An error result is any result that is not a returned object.\<close>

fun is_error :: "outcome \<Rightarrow> bool" where
  "is_error (Returned ob) = False"
| "is_error r = True"

text \<open>
  Reference counts. \<^verbatim>\<open>Py_DECREF\<close> drops one reference, and the interpreter deallocates
  the object when its count reaches 0. The world keeps the counts: an object is alive
  while its count is positive. An object that is not alive has been deallocated, and
  whoever still holds its address must not use it. The module meets such an address in
  two ways. \<^verbatim>\<open>py_slp_open\<close> returns the capsule with two references, \<^verbatim>\<open>py_slp_close\<close>
  drops one at every call: a close after the first one takes a reference that belongs
  to the caller, who is left with the address of a deallocated capsule. And a cookie
  keeps the addresses of the handle object and of the cookie object without references
  of its own. So where the module reads the handle, the callback it is about to keep,
  or the objects of a cookie, the object has to be alive, and there is no defined
  result otherwise.
\<close>

definition alive :: "world \<Rightarrow> pyobj \<Rightarrow> bool" where
  "alive W ob = (0 < ob_refcnt W ob)"

definition Py_INCREF :: "pyobj \<Rightarrow> world \<Rightarrow> world" where
  "Py_INCREF ob W = W\<lparr>ob_refcnt := (ob_refcnt W)(ob := ob_refcnt W ob + 1)\<rparr>"

definition Py_DECREF :: "pyobj \<Rightarrow> world \<Rightarrow> world" where
  "Py_DECREF ob W = W\<lparr>ob_refcnt := (ob_refcnt W)(ob := ob_refcnt W ob - 1)\<rparr>"

text \<open>
  \<^verbatim>\<open>get_slp_handle\<close> reads the object it is given (\<^verbatim>\<open>PyCapsule_IsValid\<close>): \<open>None\<close> when
  the object is not alive, otherwise the native handle, 0 for an object that is not a
  valid capsule.
\<close>

definition get_slp_handle :: "world \<Rightarrow> pyobj \<Rightarrow> SLPHandle option" where
  "get_slp_handle W py_handle' =
    (if \<not> alive W py_handle' then None
     else if PyCapsule_IsValid py_handle' None then
       Some (PyCapsule_GetPointer py_handle' None)
     else Some 0)"

definition free :: "nat \<Rightarrow> world \<Rightarrow> world" where
  "free p W = W\<lparr>cookies := (cookies W)(p := None)\<rparr>"

definition record_call :: "native_call \<Rightarrow> world \<Rightarrow> world" where
  "record_call c W = W\<lparr>native_log := native_log W @ [c]\<rparr>"

text \<open>
  \<^verbatim>\<open>PyErr_SetString(PyExc_RuntimeError, get_slp_error_msg(err))\<close> followed by
  \<^verbatim>\<open>return NULL\<close>. The message must be a string: with the null pointer the call has no
  defined behaviour.
\<close>

definition raise_slp_error :: "SLPError \<Rightarrow> outcome" where
  "raise_slp_error err =
    (case get_slp_error_msg err of None \<Rightarrow> Undefined | Some msg \<Rightarrow> Raised RuntimeError msg)"

text \<open>
  \<^verbatim>\<open>return Py_BuildValue(...)\<close>: the built object, or \<^verbatim>\<open>NULL\<close> with the decoder's
  exception when a string of it is not UTF-8.
\<close>

fun built :: "pyobj option \<Rightarrow> outcome" where
  "built (Some ob) = Returned ob"
| "built None = BuildError UnicodeDecodeError"

subsection \<open>The callback bridge\<close>

text \<open>
  The native library calls back with the cookie it was given, the address of a
  \<^verbatim>\<open>cb_cookie_t\<close>. A cookie that is not allocated any more cannot be read: the result is
  \<open>None\<close> (no defined behaviour) then. Otherwise the result is the returned
  \<^verbatim>\<open>SLPBoolean\<close> and the new world. The local \<^verbatim>\<open>ret\<close> has no initialiser: when no branch
  assigns it, the returned value is indeterminate (\<open>None\<close> in the first component).

  \<^verbatim>\<open>cb_common\<close> does not test \<^verbatim>\<open>py_args\<close>. When \<^verbatim>\<open>Py_BuildValue\<close> returned \<^verbatim>\<open>NULL\<close>, the
  callback is called without arguments while an exception is set and
  \<^verbatim>\<open>Py_DECREF(py_args)\<close> then writes through the null pointer: no defined behaviour. The
  callback is read through the pointer the cookie holds, so it has to be alive. The
  argument tuple is built for the call and released right after it; its own reference
  count is not tracked.
\<close>

definition cb_common ::
    "env \<Rightarrow> pyobj option \<Rightarrow> nat \<Rightarrow> int \<Rightarrow> world \<Rightarrow> (int option \<times> world) option" where
  "cb_common E py_args cookie cleanup W =
    (case cookies W cookie of
       None \<Rightarrow> None
     | Some cb_data \<Rightarrow>
        (case py_args of
           None \<Rightarrow> None
         | Some args \<Rightarrow>
            if alive W (py_callback cb_data) then
              (let py_result = py_call E (py_callback cb_data) args;
                   W1 = W\<lparr>delivered := delivered W @ [(py_callback cb_data, args)]\<rparr>
               in case py_result of
                    None \<Rightarrow>
                      Some (Some 0,
                        W1\<lparr>pyerr := Some (RuntimeError,
                          ''The SLP callback did not return a boolean value.'')\<rparr>)
                  | Some r \<Rightarrow>
                      if cleanup \<noteq> 0 then
                        Some (None, free cookie (Py_DECREF (py_callback cb_data) W1))
                      else if PyObject_IsTrue r = 0 then
                        Some (Some (PyObject_IsTrue r),
                              free cookie (Py_DECREF (py_callback cb_data) W1))
                      else Some (Some (PyObject_IsTrue r), W1))
            else None))"

text \<open>
  The bridges build the argument tuple from the cookie. The unit \<^verbatim>\<open>O\<close> takes a
  reference to the handle object and to the cookie object, which the cookie holds
  without a reference of its own: both have to be alive.
\<close>

definition srv_url_cb ::
    "env \<Rightarrow> SLPHandle \<Rightarrow> string option \<Rightarrow> 16 word \<Rightarrow> SLPError \<Rightarrow> nat \<Rightarrow> world
      \<Rightarrow> (int option \<times> world) option" where
  "srv_url_cb E hslp srvurl lifetime errcode cookie W =
    (case cookies W cookie of
       None \<Rightarrow> None
     | Some cb_data \<Rightarrow>
        if alive W (py_handle cb_data) \<and> alive W (py_cookie cb_data) then
          cb_common E
            (Py_BuildValue_tuple
               [Some (py_handle cb_data), Py_BuildValue_z srvurl,
                Some (PyLong (uint lifetime)), Some (PyLong errcode),
                Some (py_cookie cb_data)])
            cookie 0 W
        else None)"

definition srv_attr_type_cb ::
    "env \<Rightarrow> SLPHandle \<Rightarrow> string option \<Rightarrow> SLPError \<Rightarrow> nat \<Rightarrow> world
      \<Rightarrow> (int option \<times> world) option" where
  "srv_attr_type_cb E hslp values errcode cookie W =
    (case cookies W cookie of
       None \<Rightarrow> None
     | Some cb_data \<Rightarrow>
        if alive W (py_handle cb_data) \<and> alive W (py_cookie cb_data) then
          cb_common E
            (Py_BuildValue_tuple
               [Some (py_handle cb_data), Py_BuildValue_z values, Some (PyLong errcode),
                Some (py_cookie cb_data)])
            cookie 0 W
        else None)"

text \<open>\<^verbatim>\<open>reg_report_cb\<close> returns nothing: the value of \<^verbatim>\<open>cb_common\<close> is dropped.\<close>

definition reg_report_cb :: "env \<Rightarrow> SLPHandle \<Rightarrow> SLPError \<Rightarrow> nat \<Rightarrow> world \<Rightarrow> world option" where
  "reg_report_cb E hslp errcode cookie W =
    (case cookies W cookie of
       None \<Rightarrow> None
     | Some cb_data \<Rightarrow>
        if alive W (py_handle cb_data) \<and> alive W (py_cookie cb_data) then
          map_option snd
            (cb_common E
               (Py_BuildValue_tuple
                  [Some (py_handle cb_data), Some (PyLong errcode), Some (py_cookie cb_data)])
               cookie 1 W)
        else None)"

subsection \<open>Preparing a request\<close>

text \<open>
  \<^verbatim>\<open>slpfunc_prep_args\<close> returns \<^verbatim>\<open>RET_ERROR\<close> with an exception set (\<open>Inl\<close>), or
  \<^verbatim>\<open>RET_OK\<close> with the native handle and the address of the new cookie (\<open>Inr\<close>).
  \<^verbatim>\<open>malloc\<close> returns the address the environment chooses, 0 for \<^verbatim>\<open>NULL\<close>;
  \<^verbatim>\<open>PyErr_NoMemory\<close> sets \<open>MemoryError\<close> without a message. The handle and the callback
  are read through their pointers; with one that is not alive there is no defined
  behaviour.
\<close>

definition slpfunc_prep_args ::
    "env \<Rightarrow> pyobj \<Rightarrow> pyobj \<Rightarrow> pyobj \<Rightarrow> world \<Rightarrow> outcome + (SLPHandle \<times> nat \<times> world)" where
  "slpfunc_prep_args E py_handle' py_callback' py_cookie' W =
    (case get_slp_handle W py_handle' of
       None \<Rightarrow> Inl Undefined
     | Some hslp \<Rightarrow>
        if hslp = 0 then Inl (Raised TypeError ''Invalid SLP handle'')
        else if \<not> alive W py_callback' then Inl Undefined
        else if \<not> PyCallable_Check py_callback' then
          Inl (Raised TypeError ''Callback must be callable'')
        else if malloc_ret E = 0 then Inl (Raised MemoryError [])
        else
          Inr (hslp, malloc_ret E,
               Py_INCREF py_callback'
                 (W\<lparr>cookies := (cookies W)(malloc_ret E \<mapsto>
                      \<lparr>py_handle = py_handle', py_cookie = py_cookie',
                       py_callback = py_callback'\<rparr>)\<rparr>)))"

definition location_func_prep ::
    "env \<Rightarrow> pyobj list \<Rightarrow> world
      \<Rightarrow> outcome + (SLPHandle \<times> string option \<times> string option \<times> string option \<times> nat \<times> world)" where
  "location_func_prep E args W =
    (case PyArg_ParseTuple args ''OzzzOO'' of
       Inl e \<Rightarrow> Inl (ArgError e)
     | Inr [CObj py_handle', CStr str_arg_1, CStr str_arg_2, CStr str_arg_3,
            CObj py_callback', CObj py_cookie'] \<Rightarrow>
         (case slpfunc_prep_args E py_handle' py_callback' py_cookie' W of
            Inl x \<Rightarrow> Inl x
          | Inr (hslp, cb_cookie, W1) \<Rightarrow>
              Inr (hslp, str_arg_1, str_arg_2, str_arg_3, cb_cookie, W1))
     | Inr _ \<Rightarrow> Inl Undefined)"

text \<open>
  A request function of the native library: the call is recorded, then the library runs
  (and delivers the callbacks) as the environment says.
\<close>

definition native_request :: "env \<Rightarrow> native_call \<Rightarrow> world \<Rightarrow> SLPError \<times> world" where
  "native_request E c W = lib_request E c (record_call c W)"

text \<open>The common end of the request functions of the module.\<close>

definition finish_request :: "SLPError \<times> world \<Rightarrow> outcome \<times> world" where
  "finish_request r =
    (case r of (err, W) \<Rightarrow>
       if err \<noteq> SLP_OK then (raise_slp_error err, W)
       else (Returned PyNone, Py_INCREF PyNone W))"

subsection \<open>Handles\<close>

text \<open>
  Modelled from the spec: the session table of the native library, whose functions
  \<^verbatim>\<open>SLPOpen\<close> and \<^verbatim>\<open>SLPClose\<close> are not part of this repository. An open that succeeds
  adds the handle it returns to the open sessions, an open that fails adds none, and a
  close releases the session of its handle.
\<close>

definition SLPOpen :: "env \<Rightarrow> string option \<Rightarrow> int \<Rightarrow> world \<Rightarrow> SLPError \<times> SLPHandle \<times> world" where
  "SLPOpen E lang isasync W =
    (case lib_open E lang isasync of (err, hslp) \<Rightarrow>
       if err = SLP_OK then
         (err, hslp, (record_call (N_SLPOpen lang isasync) W)\<lparr>sessions := insert hslp (sessions W)\<rparr>)
       else (err, hslp, record_call (N_SLPOpen lang isasync) W))"

definition SLPClose :: "SLPHandle \<Rightarrow> world \<Rightarrow> world" where
  "SLPClose hslp W = (record_call (N_SLPClose hslp) W)\<lparr>sessions := sessions W - {hslp}\<rparr>"

text \<open>
  \<^verbatim>\<open>PyCapsule_New(pointer, NULL, NULL)\<close>: refused with \<open>ValueError\<close> for a null pointer,
  \<open>MemoryError\<close> when the object cannot be allocated; the new capsule has one reference.
\<close>

definition PyCapsule_New :: "env \<Rightarrow> nat \<Rightarrow> world \<Rightarrow> (pyexc \<times> string) + (pyobj \<times> world)" where
  "PyCapsule_New E pointer W =
    (if pointer = 0 then Inl (ValueError, ''PyCapsule_New called with null pointer'')
     else if \<not> capsule_alloc_ok E then Inl (MemoryError, [])
     else Inr (PyCapsule pointer None,
               W\<lparr>ob_refcnt := (ob_refcnt W)(PyCapsule pointer None := 1)\<rparr>))"

definition py_slp_open :: "env \<Rightarrow> world \<Rightarrow> pyobj list \<Rightarrow> outcome \<times> world" where
  "py_slp_open E W args =
    (case PyArg_ParseTuple args ''zi'' of
       Inl e \<Rightarrow> (ArgError e, W)
     | Inr [CStr lang, CInt isasync] \<Rightarrow>
         (case SLPOpen E lang isasync W of (err, hslp, W1) \<Rightarrow>
            if err \<noteq> SLP_OK then (raise_slp_error err, W1)
            else
              (case PyCapsule_New E hslp W1 of
                 Inl (e, msg) \<Rightarrow> (Raised e msg, SLPClose hslp W1)
               | Inr (py_handle', W2) \<Rightarrow> (Returned py_handle', Py_INCREF py_handle' W2)))
     | Inr _ \<Rightarrow> (Undefined, W))"

definition py_slp_close :: "env \<Rightarrow> world \<Rightarrow> pyobj list \<Rightarrow> outcome \<times> world" where
  "py_slp_close E W args =
    (case PyArg_ParseTuple args ''O'' of
       Inl e \<Rightarrow> (ArgError e, W)
     | Inr [CObj py_handle'] \<Rightarrow>
         (case get_slp_handle W py_handle' of
            None \<Rightarrow> (Undefined, W)
          | Some hslp \<Rightarrow>
              if hslp \<noteq> 0 then
                (Returned PyNone,
                 Py_INCREF PyNone (Py_DECREF py_handle' (SLPClose hslp W)))
              else
                (Raised TypeError
                   ''The argument to SLPClose doesn't seem to be a valid SLP handle'', W))
     | Inr _ \<Rightarrow> (Undefined, W))"

subsection \<open>Service location and registration\<close>

definition py_slp_findsrvs :: "env \<Rightarrow> world \<Rightarrow> pyobj list \<Rightarrow> outcome \<times> world" where
  "py_slp_findsrvs E W args =
    (case location_func_prep E args W of
       Inl x \<Rightarrow> (x, W)
     | Inr (hslp, srvtype, scopetype, filter', cookie, W1) \<Rightarrow>
         finish_request
           (native_request E (N_SLPFindSrvs hslp srvtype scopetype filter' cookie) W1))"

definition py_slp_findsrvtypes :: "env \<Rightarrow> world \<Rightarrow> pyobj list \<Rightarrow> outcome \<times> world" where
  "py_slp_findsrvtypes E W args =
    (case PyArg_ParseTuple args ''OzzOO'' of
       Inl e \<Rightarrow> (ArgError e, W)
     | Inr [CObj py_handle', CStr namingauth, CStr scopelist, CObj py_callback',
            CObj py_cookie'] \<Rightarrow>
         (case slpfunc_prep_args E py_handle' py_callback' py_cookie' W of
            Inl x \<Rightarrow> (x, W)
          | Inr (hslp, cookie, W1) \<Rightarrow>
              finish_request
                (native_request E (N_SLPFindSrvTypes hslp namingauth scopelist cookie) W1))
     | Inr _ \<Rightarrow> (Undefined, W))"

definition py_slp_findattrs :: "env \<Rightarrow> world \<Rightarrow> pyobj list \<Rightarrow> outcome \<times> world" where
  "py_slp_findattrs E W args =
    (case location_func_prep E args W of
       Inl x \<Rightarrow> (x, W)
     | Inr (hslp, srvurl, scopelist, attrids, cookie, W1) \<Rightarrow>
         finish_request
           (native_request E (N_SLPFindAttrs hslp srvurl scopelist attrids cookie) W1))"

text \<open>
  \<^verbatim>\<open>py_slp_reg\<close> gives the address of its \<^verbatim>\<open>unsigned short lifetime\<close> for the unit
  \<^verbatim>\<open>i\<close> of the format \<^verbatim>\<open>OsizzOOO\<close> (index 2). Once that unit has converted, the parser
  has written past the variable, whether or not the units after it convert: there is
  no defined behaviour from then on. Only a parse that fails before the store is a
  plain argument error. The rest of the body follows the source; it asks for a lifetime
  that a unit for \<^verbatim>\<open>unsigned short\<close> wrote.
\<close>

definition py_slp_reg :: "env \<Rightarrow> world \<Rightarrow> pyobj list \<Rightarrow> outcome \<times> world" where
  "py_slp_reg E W args =
    (case PyArg_ParseTuple args ''OsizzOOO'' of
       Inl e \<Rightarrow> (if unit_stored args ''OsizzOOO'' 2 then Undefined else ArgError e, W)
     | Inr [CObj py_handle', CStr (Some srvurl), lifetime, CStr srvtype, CStr attrs,
            CObj py_fresh, CObj py_callback', CObj py_cookie'] \<Rightarrow>
         (case unsigned_short_var lifetime of
            None \<Rightarrow> (Undefined, W)
          | Some lifetime' \<Rightarrow>
             (case slpfunc_prep_args E py_handle' py_callback' py_cookie' W of
                Inl x \<Rightarrow> (x, W)
              | Inr (hslp, cookie, W1) \<Rightarrow>
                  if alive W py_fresh then
                    finish_request
                      (native_request E
                         (N_SLPReg hslp srvurl lifetime' srvtype attrs
                            (PyObject_IsTrue py_fresh) cookie) W1)
                  else (Undefined, W1)))
     | Inr _ \<Rightarrow> (Undefined, W))"

definition py_slp_dereg :: "env \<Rightarrow> world \<Rightarrow> pyobj list \<Rightarrow> outcome \<times> world" where
  "py_slp_dereg E W args =
    (case PyArg_ParseTuple args ''OsOO'' of
       Inl e \<Rightarrow> (ArgError e, W)
     | Inr [CObj py_handle', CStr (Some srvurl), CObj py_callback', CObj py_cookie'] \<Rightarrow>
         (case slpfunc_prep_args E py_handle' py_callback' py_cookie' W of
            Inl x \<Rightarrow> (x, W)
          | Inr (hslp, cookie, W1) \<Rightarrow>
              finish_request (native_request E (N_SLPDereg hslp srvurl cookie) W1))
     | Inr _ \<Rightarrow> (Undefined, W))"

definition py_slp_delattrs :: "env \<Rightarrow> world \<Rightarrow> pyobj list \<Rightarrow> outcome \<times> world" where
  "py_slp_delattrs E W args =
    (case PyArg_ParseTuple args ''OssOO'' of
       Inl e \<Rightarrow> (ArgError e, W)
     | Inr [CObj py_handle', CStr (Some srvurl), CStr (Some attrs), CObj py_callback',
            CObj py_cookie'] \<Rightarrow>
         (case slpfunc_prep_args E py_handle' py_callback' py_cookie' W of
            Inl x \<Rightarrow> (x, W)
          | Inr (hslp, cookie, W1) \<Rightarrow>
              finish_request (native_request E (N_SLPDelAttrs hslp srvurl attrs cookie) W1))
     | Inr _ \<Rightarrow> (Undefined, W))"

subsection \<open>Configuration\<close>

text \<open>
  \<^verbatim>\<open>Py_BuildValue("i", SLPGetRefreshInterval())\<close>: the \<^verbatim>\<open>unsigned short\<close> is promoted
  to a 32-bit \<^verbatim>\<open>int\<close>, which the unit \<^verbatim>\<open>i\<close> reads as signed. The arguments are not
  looked at.
\<close>

definition py_slp_get_refresh_interval :: "env \<Rightarrow> world \<Rightarrow> pyobj list \<Rightarrow> outcome \<times> world" where
  "py_slp_get_refresh_interval E W args =
    (Returned (PyLong (sint (ucast (lib_refresh_interval E) :: 32 word))),
     record_call N_SLPGetRefreshInterval W)"

definition py_slp_find_scopes :: "env \<Rightarrow> world \<Rightarrow> pyobj list \<Rightarrow> outcome \<times> world" where
  "py_slp_find_scopes E W args =
    (case PyArg_ParseTuple args ''O'' of
       Inl e \<Rightarrow> (ArgError e, W)
     | Inr [CObj py_handle'] \<Rightarrow>
         (case get_slp_handle W py_handle' of
            None \<Rightarrow> (Undefined, W)
          | Some hslp \<Rightarrow>
              if hslp = 0 then
                (Raised TypeError ''The argument doesn't seem to be a valid SLP handle'', W)
              else
                (case lib_find_scopes E hslp of (err, scopelist) \<Rightarrow>
                   if err \<noteq> SLP_OK then
                     (raise_slp_error err, record_call (N_SLPFindScopes hslp) W)
                   else
                     (built (Py_BuildValue_z scopelist),
                      record_call (N_SLPFindScopes hslp) W)))
     | Inr _ \<Rightarrow> (Undefined, W))"

text \<open>
  Modelled from the spec: the property store of the native library, whose functions
  \<^verbatim>\<open>SLPGetProperty\<close> and \<^verbatim>\<open>SLPSetProperty\<close> are not part of this repository. A get
  looks the name up and gives the value or nothing; a set is accepted and is a no-op on
  the store (the module's own comment at the call says the same).
\<close>

definition SLPGetProperty :: "string \<Rightarrow> world \<Rightarrow> string option \<times> world" where
  "SLPGetProperty name W = (props W name, record_call (N_SLPGetProperty name) W)"

definition SLPSetProperty :: "string option \<Rightarrow> string option \<Rightarrow> world \<Rightarrow> world" where
  "SLPSetProperty name val W = record_call (N_SLPSetProperty name val) W"

definition py_slp_get_property :: "env \<Rightarrow> world \<Rightarrow> pyobj list \<Rightarrow> outcome \<times> world" where
  "py_slp_get_property E W args =
    (case PyArg_ParseTuple args ''s'' of
       Inl e \<Rightarrow> (ArgError e, W)
     | Inr [CStr (Some name)] \<Rightarrow>
         (case SLPGetProperty name W of
            (Some val, W1) \<Rightarrow> (built (Py_BuildValue_z (Some val)), W1)
          | (None, W1) \<Rightarrow> (Returned PyNone, Py_INCREF PyNone W1))
     | Inr _ \<Rightarrow> (Undefined, W))"

definition py_slp_set_property :: "env \<Rightarrow> world \<Rightarrow> pyobj list \<Rightarrow> outcome \<times> world" where
  "py_slp_set_property E W args =
    (case PyArg_ParseTuple args ''zz'' of
       Inl e \<Rightarrow> (ArgError e, W)
     | Inr [CStr name, CStr val] \<Rightarrow>
         (Returned PyNone, Py_INCREF PyNone (SLPSetProperty name val W))
     | Inr _ \<Rightarrow> (Undefined, W))"

subsection \<open>Escaping\<close>

text \<open>
  Both functions parse their arguments with the format \<^verbatim>\<open>si\<close> and pass the address of
  the \<^verbatim>\<open>PyObject *\<close> variable \<^verbatim>\<open>py_istag\<close> for the unit \<^verbatim>\<open>i\<close>; the variable is then given
  to \<^verbatim>\<open>PyObject_IsTrue\<close>. \<^verbatim>\<open>SLPEscape\<close> and \<^verbatim>\<open>SLPUnescape\<close> are the native library's.
\<close>

definition py_slp_escape :: "env \<Rightarrow> world \<Rightarrow> pyobj list \<Rightarrow> outcome \<times> world" where
  "py_slp_escape E W args =
    (case PyArg_ParseTuple args ''si'' of
       Inl e \<Rightarrow> (ArgError e, W)
     | Inr [CStr (Some unescaped), py_istag] \<Rightarrow>
         (case PyObject_IsTrue_var py_istag of
            None \<Rightarrow> (Undefined, W)
          | Some istag \<Rightarrow>
              (case lib_escape E unescaped istag of (err, escaped) \<Rightarrow>
                 if err \<noteq> SLP_OK then
                   (raise_slp_error err, record_call (N_SLPEscape unescaped istag) W)
                 else
                   (built (Py_BuildValue_z escaped),
                    record_call (N_SLPEscape unescaped istag) W)))
     | Inr _ \<Rightarrow> (Undefined, W))"

definition py_slp_unescape :: "env \<Rightarrow> world \<Rightarrow> pyobj list \<Rightarrow> outcome \<times> world" where
  "py_slp_unescape E W args =
    (case PyArg_ParseTuple args ''si'' of
       Inl e \<Rightarrow> (ArgError e, W)
     | Inr [CStr (Some escaped), py_istag] \<Rightarrow>
         (case PyObject_IsTrue_var py_istag of
            None \<Rightarrow> (Undefined, W)
          | Some istag \<Rightarrow>
              (case lib_unescape E escaped istag of (err, unescaped) \<Rightarrow>
                 if err \<noteq> SLP_OK then
                   (raise_slp_error err, record_call (N_SLPUnescape escaped istag) W)
                 else
                   (built (Py_BuildValue_z unescaped),
                    record_call (N_SLPUnescape escaped istag) W)))
     | Inr _ \<Rightarrow> (Undefined, W))"

subsection \<open>Service URLs\<close>

text \<open>
  The fields of \<^verbatim>\<open>SLPSrvURL\<close> that \<^verbatim>\<open>py_slp_parse_srvurl\<close> reads: four strings and
  the port.
\<close>

record SLPSrvURL =
  s_pcSrvType :: "string option"
  s_pcHost :: "string option"
  s_iPort :: int
  s_pcNetFamily :: "string option"
  s_pcSrvPart :: "string option"

text \<open>
  Modelled from the spec: the parts of the URL parser of the native library, which is
  not part of this repository: the code of the parse error (code 2 of the message
  table, negated as every error code is), the decimal port number, and the result of a
  successful parse.
\<close>

definition SLP_PARSE_ERROR :: SLPError where
  "SLP_PARSE_ERROR = - 2"

definition is_digit :: "char \<Rightarrow> bool" where
  "is_digit c = (48 \<le> (of_char c :: nat) \<and> (of_char c :: nat) \<le> 57)"

fun decimal :: "string \<Rightarrow> int \<Rightarrow> int option" where
  "decimal [] acc = Some acc"
| "decimal (c # cs) acc =
    (if is_digit c then decimal cs (10 * acc + (of_char c - 48)) else None)"

definition parse_port :: "string \<Rightarrow> int option" where
  "parse_port p = (if p = [] then None else decimal p 0)"

definition srv_url :: "string \<Rightarrow> string \<Rightarrow> int \<Rightarrow> string \<Rightarrow> SLPError \<times> SLPSrvURL option" where
  "srv_url srvtype host port srvpart =
    (SLP_OK,
     Some \<lparr>s_pcSrvType = Some srvtype, s_pcHost = Some host, s_iPort = port,
           s_pcNetFamily = Some [], s_pcSrvPart = Some srvpart\<rparr>)"

text \<open>
  Modelled from the spec: the URL parser \<^verbatim>\<open>SLPParseSrvURL\<close> of the native library, which
  is not part of this repository. The spec gives the grammar
  \<^verbatim>\<open>service:<srvtype>://<host>[:<port>][/<srvpart>]\<close>, says that empty or malformed input
  fails with the parse error, and that the port is 0 when absent. The service type is
  the text between \<^verbatim>\<open>service:\<close> and \<^verbatim>\<open>://\<close>, the host runs to the first \<^verbatim>\<open>:\<close> or
  \<^verbatim>\<open>/\<close>, the port is a decimal number, and the service part is the rest from its
  \<^verbatim>\<open>/\<close> on. Input that is not of this form (a null string included) is malformed. The
  network family qualifier, of which the spec gives no syntax, is left empty.
\<close>

definition SLPParseSrvURL :: "string option \<Rightarrow> SLPError \<times> SLPSrvURL option" where
  "SLPParseSrvURL srvurl =
    (case srvurl of
       None \<Rightarrow> (SLP_PARSE_ERROR, None)
     | Some url \<Rightarrow>
        if take 8 url \<noteq> ''service:'' then (SLP_PARSE_ERROR, None)
        else
          (let r = drop 8 url;
               t = takeWhile (\<lambda>c. c \<noteq> CHR ''/'') r;
               r1 = dropWhile (\<lambda>c. c \<noteq> CHR ''/'') r
           in if length t < 2 \<or> last t \<noteq> CHR '':'' \<or> take 2 r1 \<noteq> ''//''
              then (SLP_PARSE_ERROR, None)
              else
                (let r2 = drop 2 r1;
                     h = takeWhile (\<lambda>c. c \<noteq> CHR '':'' \<and> c \<noteq> CHR ''/'') r2;
                     r3 = dropWhile (\<lambda>c. c \<noteq> CHR '':'' \<and> c \<noteq> CHR ''/'') r2
                 in if h = [] then (SLP_PARSE_ERROR, None)
                    else
                      (case r3 of
                         [] \<Rightarrow> srv_url (butlast t) h 0 []
                       | c # r4 \<Rightarrow>
                           if c = CHR ''/'' then srv_url (butlast t) h 0 r3
                           else
                             (case parse_port (takeWhile (\<lambda>c. c \<noteq> CHR ''/'') r4) of
                                None \<Rightarrow> (SLP_PARSE_ERROR, None)
                              | Some n \<Rightarrow>
                                  srv_url (butlast t) h n
                                    (dropWhile (\<lambda>c. c \<noteq> CHR ''/'') r4))))))"

definition py_slp_parse_srvurl :: "env \<Rightarrow> world \<Rightarrow> pyobj list \<Rightarrow> outcome \<times> world" where
  "py_slp_parse_srvurl E W args =
    (case PyArg_ParseTuple args ''z'' of
       Inl e \<Rightarrow> (ArgError e, W)
     | Inr [CStr srvurl] \<Rightarrow>
         (case SLPParseSrvURL srvurl of (err, parsedurl) \<Rightarrow>
            if err \<noteq> SLP_OK then
              (raise_slp_error err, record_call (N_SLPParseSrvURL srvurl) W)
            else
              (case parsedurl of
                 None \<Rightarrow> (Undefined, record_call (N_SLPParseSrvURL srvurl) W)
               | Some u \<Rightarrow>
                   (built
                      (Py_BuildValue_tuple
                         [Py_BuildValue_z (s_pcSrvType u), Py_BuildValue_z (s_pcHost u),
                          Some (PyLong (s_iPort u)), Py_BuildValue_z (s_pcNetFamily u),
                          Py_BuildValue_z (s_pcSrvPart u)]),
                    record_call (N_SLPParseSrvURL srvurl) W)))
     | Inr _ \<Rightarrow> (Undefined, W))"

subsection \<open>A concrete world\<close>

text \<open>
  An environment and a start state to run the module on: the callable number 11 returns
  \<open>True\<close>, number 12 returns \<open>False\<close>, every other callable raises; allocations succeed;
  the native open succeeds with the handle 7 and every request succeeds without
  delivering anything. The start state has no session and no cookie, one property, and
  every reference count at 1.
\<close>

definition env0 :: env where
  "env0 =
    \<lparr>py_call = (\<lambda>f a. if f = PyFunc 11 then Some (PyBool True)
                        else if f = PyFunc 12 then Some (PyBool False) else None),
     malloc_ret = 100,
     capsule_alloc_ok = True,
     lib_open = (\<lambda>lang isasync. (0, 7)),
     lib_request = (\<lambda>c W. (0, W)),
     lib_find_scopes = (\<lambda>h. (0, Some ''DEFAULT'')),
     lib_refresh_interval = 0,
     lib_escape = (\<lambda>s t. (0, Some s)),
     lib_unescape = (\<lambda>s t. (0, Some s))\<rparr>"

definition world0 :: world where
  "world0 =
    \<lparr>sessions = {}, props = [''net.slp.useScopes'' \<mapsto> ''DEFAULT''], cookies = Map.empty,
     ob_refcnt = (\<lambda>ob. 1),
     pyerr = None, native_log = [], delivered = []\<rparr>"

subsection \<open>Properties of the error names\<close>

lemma length_err_msg: "length err_msg = 27"
  by (simp add: err_msg_def)

lemma get_slp_error_msg_outside:
  "err < - 26 \<or> 1 < err \<Longrightarrow> get_slp_error_msg err = Some ''UNKNOWN_ERROR''"
  by (auto simp: get_slp_error_msg_def)

lemma get_slp_error_msg_last_call: "get_slp_error_msg 1 = Some ''SLP_LAST_CALL''"
  by (simp add: get_slp_error_msg_def)

lemma get_slp_error_msg_named:
  "get_slp_error_msg 0 = Some ''SLP_OK''"
  "get_slp_error_msg (- 1) = Some ''SLP_LANGUAGE_NOT_SUPPORTED''"
  "get_slp_error_msg (- 2) = Some ''SLP_PARSE_ERROR''"
  "get_slp_error_msg (- 3) = Some ''SLP_INVALID_REGISTRATION''"
  "get_slp_error_msg (- 4) = Some ''SLP_SCOPE_NOT_SUPPORTED''"
  "get_slp_error_msg (- 6) = Some ''SLP_AUTHENTICATION_ABSENT''"
  "get_slp_error_msg (- 7) = Some ''SLP_AUTHENTICATION_FAILED''"
  "get_slp_error_msg (- 13) = Some ''SLP_INVALID_UPDATE''"
  "get_slp_error_msg (- 15) = Some ''SLP_REFRESH_REJECTED''"
  "get_slp_error_msg (- 17) = Some ''SLP_NOT_IMPLEMENTED''"
  "get_slp_error_msg (- 18) = Some ''SLP_BUFFER_OVERFLOW''"
  "get_slp_error_msg (- 19) = Some ''SLP_NETWORK_TIMED_OUT''"
  "get_slp_error_msg (- 20) = Some ''SLP_NETWORK_INIT_FAILED''"
  "get_slp_error_msg (- 21) = Some ''SLP_MEMORY_ALLOC_FAILED''"
  "get_slp_error_msg (- 22) = Some ''SLP_PARAMETER_BAD''"
  "get_slp_error_msg (- 23) = Some ''SLP_NETWORK_ERROR''"
  "get_slp_error_msg (- 24) = Some ''SLP_INTERNAL_SYSTEM_ERROR''"
  "get_slp_error_msg (- 25) = Some ''SLP_HANDLE_IN_USE''"
  "get_slp_error_msg (- 26) = Some ''SLP_TYPE_ERROR''"
  by (simp_all add: get_slp_error_msg_def err_msg_def)

text \<open>The codes for which the result is the null pointer.\<close>

lemma get_slp_error_msg_null_iff:
  "get_slp_error_msg err = None \<longleftrightarrow> err \<in> {- 5, - 8, - 9, - 10, - 11, - 12, - 14, - 16}"
proof (cases "err \<le> 0 \<and> err \<ge> - 26")
  case False
  then show ?thesis by (auto simp: get_slp_error_msg_def)
next
  case True
  define k where "k = nat (- err)"
  from True have k: "err = - int k" "k < 27"
    unfolding k_def by arith+
  from k(2) have "k = 0 \<or> k = 1 \<or> k = 2 \<or> k = 3 \<or> k = 4 \<or> k = 5 \<or> k = 6 \<or> k = 7 \<or> k = 8 \<or>
      k = 9 \<or> k = 10 \<or> k = 11 \<or> k = 12 \<or> k = 13 \<or> k = 14 \<or> k = 15 \<or> k = 16 \<or> k = 17 \<or>
      k = 18 \<or> k = 19 \<or> k = 20 \<or> k = 21 \<or> k = 22 \<or> k = 23 \<or> k = 24 \<or> k = 25 \<or> k = 26"
    by arith
  then show ?thesis
    unfolding k(1)
    by (elim disjE) (simp_all add: get_slp_error_msg_def err_msg_def)
qed

text \<open>
  C1. The claim says that every code without a table entry, the gaps inside
  \<open>[-26, 0]\<close> included, is translated to \<open>UNKNOWN_ERROR\<close> and that no code gives a
  null string. On the code the range test sends the gap codes \<open>-5\<close> and \<open>-16\<close> to the
  table, whose elements 5 and 16 have no initialiser: the function returns the null
  pointer there, not \<open>UNKNOWN_ERROR\<close>.
\<close>

theorem get_slp_error_msg_gap_null:
  "get_slp_error_msg (- 5) = None \<and> get_slp_error_msg (- 16) = None \<and>
   get_slp_error_msg (- 5) \<noteq> Some ''UNKNOWN_ERROR''"
  by (simp add: get_slp_error_msg_def err_msg_def)

subsection \<open>What the argument parser leaves in the variables\<close>

lemma convert_args_Cons_iff:
  "convert_args (c # cs) (a # as) = Inr vals \<longleftrightarrow>
    (\<exists>v vs. vals = v # vs \<and> convert_arg c a = Inr v \<and> convert_args cs as = Inr vs)"
  by (auto split: sum.splits)

lemma convert_args_Nil_iff: "convert_args [] as = Inr vals \<longleftrightarrow> vals = []"
  by auto

lemma convert_arg_O: "convert_arg CHR ''O'' a = Inr v \<longleftrightarrow> v = CObj a"
  by (auto simp: convert_arg_def)

lemma convert_arg_z: "convert_arg CHR ''z'' a = Inr v \<Longrightarrow> \<exists>s. v = CStr s"
  by (auto simp: convert_arg_def split: pyobj.splits if_splits)

lemma convert_arg_s: "convert_arg CHR ''s'' a = Inr v \<Longrightarrow> \<exists>s. v = CStr (Some s)"
  by (auto simp: convert_arg_def split: pyobj.splits if_splits)

lemma convert_arg_i: "convert_arg CHR ''i'' a = Inr v \<Longrightarrow> \<exists>n. v = CInt n"
  by (auto simp: convert_arg_def split: pyobj.splits if_splits)

lemma parse_okD:
  "parse_ok args format \<Longrightarrow>
    \<exists>vals. length args = length format \<and> convert_args format args = Inr vals \<and>
           PyArg_ParseTuple args format = Inr vals"
  by (auto simp: parse_ok_def PyArg_ParseTuple_def split: sum.splits if_splits)

lemmas shape_simps = convert_args_Cons_iff convert_args_Nil_iff convert_arg_O

lemma shape_O:
  "parse_ok args ''O'' \<Longrightarrow> \<exists>h. args = [h] \<and> PyArg_ParseTuple args ''O'' = Inr [CObj h]"
  by (drule parse_okD)
     (auto simp: length_Suc_conv shape_simps simp del: convert_args.simps)

lemma shape_OzzzOO:
  "parse_ok args ''OzzzOO'' \<Longrightarrow>
    \<exists>h a2 a3 a4 cb ck s1 s2 s3. args = [h, a2, a3, a4, cb, ck] \<and>
      PyArg_ParseTuple args ''OzzzOO'' = Inr [CObj h, CStr s1, CStr s2, CStr s3, CObj cb, CObj ck]"
  by (drule parse_okD)
     (auto simp: length_Suc_conv shape_simps simp del: convert_args.simps dest!: convert_arg_z)

lemma shape_OzzOO:
  "parse_ok args ''OzzOO'' \<Longrightarrow>
    \<exists>h a2 a3 cb ck s1 s2. args = [h, a2, a3, cb, ck] \<and>
      PyArg_ParseTuple args ''OzzOO'' = Inr [CObj h, CStr s1, CStr s2, CObj cb, CObj ck]"
  by (drule parse_okD)
     (auto simp: length_Suc_conv shape_simps simp del: convert_args.simps dest!: convert_arg_z)

lemma shape_OsizzOOO:
  "parse_ok args ''OsizzOOO'' \<Longrightarrow>
    \<exists>h a2 a3 a4 a5 fr cb ck u n s1 s2. args = [h, a2, a3, a4, a5, fr, cb, ck] \<and>
      PyArg_ParseTuple args ''OsizzOOO'' =
        Inr [CObj h, CStr (Some u), CInt n, CStr s1, CStr s2, CObj fr, CObj cb, CObj ck]"
  by (drule parse_okD)
     (auto simp: length_Suc_conv shape_simps simp del: convert_args.simps
           dest!: convert_arg_z convert_arg_s convert_arg_i)

lemma shape_OsOO:
  "parse_ok args ''OsOO'' \<Longrightarrow>
    \<exists>h a2 cb ck u. args = [h, a2, cb, ck] \<and>
      PyArg_ParseTuple args ''OsOO'' = Inr [CObj h, CStr (Some u), CObj cb, CObj ck]"
  by (drule parse_okD)
     (auto simp: length_Suc_conv shape_simps simp del: convert_args.simps dest!: convert_arg_s)

lemma shape_OssOO:
  "parse_ok args ''OssOO'' \<Longrightarrow>
    \<exists>h a2 a3 cb ck u v. args = [h, a2, a3, cb, ck] \<and>
      PyArg_ParseTuple args ''OssOO'' = Inr [CObj h, CStr (Some u), CStr (Some v), CObj cb, CObj ck]"
  by (drule parse_okD)
     (auto simp: length_Suc_conv shape_simps simp del: convert_args.simps dest!: convert_arg_s)

lemma shape_zi:
  "parse_ok args ''zi'' \<Longrightarrow>
    \<exists>a1 a2 s n. args = [a1, a2] \<and> PyArg_ParseTuple args ''zi'' = Inr [CStr s, CInt n]"
  by (drule parse_okD)
     (auto simp: length_Suc_conv shape_simps simp del: convert_args.simps
           dest!: convert_arg_z convert_arg_i)

lemma shape_zz:
  "parse_ok args ''zz'' \<Longrightarrow>
    \<exists>a1 a2 s t. args = [a1, a2] \<and> PyArg_ParseTuple args ''zz'' = Inr [CStr s, CStr t]"
  by (drule parse_okD)
     (auto simp: length_Suc_conv shape_simps simp del: convert_args.simps dest!: convert_arg_z)

lemma shape_si:
  "parse_ok args ''si'' \<Longrightarrow>
    \<exists>a1 a2 s n. args = [a1, a2] \<and> PyArg_ParseTuple args ''si'' = Inr [CStr (Some s), CInt n]"
  by (drule parse_okD)
     (auto simp: length_Suc_conv shape_simps simp del: convert_args.simps
           dest!: convert_arg_s convert_arg_i)

lemma not_parse_ok: "\<not> parse_ok args format \<Longrightarrow> \<exists>e. PyArg_ParseTuple args format = Inl e"
  by (auto simp: parse_ok_def split: sum.splits)

lemma utf8_valid_examples:
  "utf8_valid ''service:foo://host''"
  "utf8_valid ''service:foo''"
  "utf8_valid ''DEFAULT''"
  "utf8_valid ''foo''"
  "utf8_valid ''host''"
  "utf8_valid ''/part''"
  "utf8_valid []"
  "\<not> utf8_valid [CHR 0xFF]"
  by (simp_all add: utf8_valid.simps byte_in_def)

subsection \<open>The callback bridge: what one delivery does\<close>

lemma cb_common_returned:
  assumes "cookies W cookie = Some cb_data"
      and "alive W (py_callback cb_data)"
      and "py_call E (py_callback cb_data) args = Some r"
  shows "cb_common E (Some args) cookie cleanup W =
    Some (if cleanup \<noteq> 0 then None else Some (PyObject_IsTrue r),
          if cleanup \<noteq> 0 \<or> PyObject_IsTrue r = 0
          then free cookie (Py_DECREF (py_callback cb_data)
                 (W\<lparr>delivered := delivered W @ [(py_callback cb_data, args)]\<rparr>))
          else W\<lparr>delivered := delivered W @ [(py_callback cb_data, args)]\<rparr>)"
  using assms by (simp add: cb_common_def Let_def)

lemma cb_common_raised:
  assumes "cookies W cookie = Some cb_data"
      and "alive W (py_callback cb_data)"
      and "py_call E (py_callback cb_data) args = None"
  shows "cb_common E (Some args) cookie cleanup W =
    Some (Some 0,
          W\<lparr>delivered := delivered W @ [(py_callback cb_data, args)],
            pyerr := Some (RuntimeError, ''The SLP callback did not return a boolean value.'')\<rparr>)"
  using assms by (simp add: cb_common_def Let_def)

lemma cb_common_no_args: "cb_common E None cookie cleanup W = None"
  by (simp add: cb_common_def split: option.splits)

lemma cleanup_effect:
  "cookies (free cookie (Py_DECREF cb (W\<lparr>delivered := d\<rparr>))) cookie = None"
  "ob_refcnt (free cookie (Py_DECREF cb (W\<lparr>delivered := d\<rparr>))) cb = ob_refcnt W cb - 1"
  "delivered (free cookie (Py_DECREF cb (W\<lparr>delivered := d\<rparr>))) = d"
  by (simp_all add: free_def Py_DECREF_def)



lemma reg_report_cb_args:
  assumes "cookies W cookie = Some cb_data"
      and "alive W (py_handle cb_data)" and "alive W (py_cookie cb_data)"
  shows "reg_report_cb E hslp errcode cookie W =
    map_option snd
      (cb_common E
         (Some (PyTuple [py_handle cb_data, PyLong errcode, py_cookie cb_data])) cookie 1 W)"
  using assms by (simp add: reg_report_cb_def Py_BuildValue_tuple_def)

text \<open>
  A payload that is not UTF-8 leaves the bridge without a defined result, whatever the
  callback would do.
\<close>

lemma srv_url_cb_not_utf8:
  "Py_BuildValue_z srvurl = None \<Longrightarrow> srv_url_cb E hslp srvurl lifetime errcode cookie W = None"
  by (simp add: srv_url_cb_def Py_BuildValue_tuple_def cb_common_no_args split: option.splits)

lemma srv_attr_type_cb_not_utf8:
  "Py_BuildValue_z vals = None \<Longrightarrow> srv_attr_type_cb E hslp vals errcode cookie W = None"
  by (simp add: srv_attr_type_cb_def Py_BuildValue_tuple_def cb_common_no_args
      split: option.splits)

lemma reg_report_cb_returned:
  assumes "cookies W cookie = Some cb_data"
      and "alive W (py_handle cb_data)" and "alive W (py_cookie cb_data)"
      and "alive W (py_callback cb_data)"
      and "py_call E (py_callback cb_data)
             (PyTuple [py_handle cb_data, PyLong errcode, py_cookie cb_data]) = Some r"
  shows "\<exists>W'. reg_report_cb E hslp errcode cookie W = Some W' \<and>
           cookies W' cookie = None \<and>
           ob_refcnt W' (py_callback cb_data) = ob_refcnt W (py_callback cb_data) - 1 \<and>
           length (delivered W') = length (delivered W) + 1"
  by (simp add: reg_report_cb_args [OF assms(1-3)] cb_common_returned [OF assms(1,4,5)]
      cleanup_effect)

lemma reg_report_cb_raised:
  assumes "cookies W cookie = Some cb_data"
      and "alive W (py_handle cb_data)" and "alive W (py_cookie cb_data)"
      and "alive W (py_callback cb_data)"
      and "py_call E (py_callback cb_data)
             (PyTuple [py_handle cb_data, PyLong errcode, py_cookie cb_data]) = None"
  shows "\<exists>W'. reg_report_cb E hslp errcode cookie W = Some W' \<and>
           cookies W' cookie = Some cb_data \<and>
           ob_refcnt W' (py_callback cb_data) = ob_refcnt W (py_callback cb_data) \<and>
           length (delivered W') = length (delivered W) + 1"
  using assms(1)
  by (simp add: reg_report_cb_args [OF assms(1-3)] cb_common_raised [OF assms(1,4,5)])

lemmas run_defs =
  PyArg_ParseTuple_def convert_arg_def location_func_prep_def slpfunc_prep_args_def
  get_slp_handle_def alive_def finish_request_def native_request_def SLP_OK_def
  record_call_def Py_INCREF_def Py_DECREF_def free_def env0_def world0_def


lemma dereg_accepted:
  "py_slp_dereg env0 world0
     [PyCapsule 7 None, PyStr ''service:foo://host'', PyFunc 3, PyNone] =
   (Returned PyNone,
    world0\<lparr>cookies := [100 \<mapsto> \<lparr>py_handle = PyCapsule 7 None, py_cookie = PyNone,
                                  py_callback = PyFunc 3\<rparr>],
           ob_refcnt := (\<lambda>ob. if ob = PyNone \<or> ob = PyFunc 3 then 2 else 1),
           native_log := [N_SLPDereg 7 ''service:foo://host'' 100]\<rparr>)"
  by (simp add: py_slp_dereg_def run_defs fun_eq_iff)




text \<open>
  C2. The claim says that the registration bridge always frees the cookie and releases
  the callback after its one delivery, also when the callback gives no usable result.
  Here a deregister request is accepted with a callback that raises; the native library
  then reports through \<^verbatim>\<open>reg_report_cb\<close>, the bridge of register, deregister and
  delete-attributes. After the one delivery the cookie is still allocated at its
  address and the callback still has the reference the request took: \<^verbatim>\<open>cb_common\<close>
  cleans up only in the branch where the call returned an object.
\<close>

theorem reg_report_cb_leaks_when_callback_raises:
  "py_call env0 (PyFunc 3) (PyTuple [PyCapsule 7 None, PyLong 0, PyNone]) = None \<and>
   fst (py_slp_dereg env0 world0
     [PyCapsule 7 None, PyStr ''service:foo://host'', PyFunc 3, PyNone]) = Returned PyNone \<and>
   map_option (\<lambda>W'. (cookies W' 100, ob_refcnt W' (PyFunc 3), length (delivered W')))
     (reg_report_cb env0 7 0 100
       (snd (py_slp_dereg env0 world0
         [PyCapsule 7 None, PyStr ''service:foo://host'', PyFunc 3, PyNone]))) =
   Some (Some \<lparr>py_handle = PyCapsule 7 None, py_cookie = PyNone, py_callback = PyFunc 3\<rparr>,
         2, 1)"
  unfolding dereg_accepted
  by (simp add: reg_report_cb_def cb_common_def Py_BuildValue_tuple_def alive_def
      world0_def env0_def)

subsection \<open>Escaping and unescaping\<close>

lemma py_slp_escape_parsed: "parse_ok args ''si'' \<Longrightarrow> py_slp_escape E W args = (Undefined, W)"
  by (auto simp: py_slp_escape_def dest!: shape_si)

lemma py_slp_unescape_parsed: "parse_ok args ''si'' \<Longrightarrow> py_slp_unescape E W args = (Undefined, W)"
  by (auto simp: py_slp_unescape_def dest!: shape_si)

lemma py_slp_escape_never_returns: "fst (py_slp_escape E W args) \<noteq> Returned ob"
proof (cases "parse_ok args ''si''")
  case True
  then show ?thesis by (simp add: py_slp_escape_parsed)
next
  case False
  then obtain e where "PyArg_ParseTuple args ''si'' = Inl e"
    using not_parse_ok by blast
  then show ?thesis by (simp add: py_slp_escape_def)
qed

lemma py_slp_unescape_never_returns: "fst (py_slp_unescape E W args) \<noteq> Returned ob"
proof (cases "parse_ok args ''si''")
  case True
  then show ?thesis by (simp add: py_slp_unescape_parsed)
next
  case False
  then obtain e where "PyArg_ParseTuple args ''si'' = Inl e"
    using not_parse_ok by blast
  then show ?thesis by (simp add: py_slp_unescape_def)
qed

text \<open>
  C4. The claim says that unescaping the escape of a string succeeds and gives the
  string back. On the code neither function gets as far as the native library: the
  flag is parsed as a C integer into a variable that is then read as an object, so for
  arguments that parse (here the string \<open>abc\<close> and the flag \<open>False\<close>) the call has no
  defined result.
\<close>

theorem escape_unescape_undefined:
  "py_slp_escape E W [PyStr ''abc'', PyBool False] = (Undefined, W) \<and>
   py_slp_unescape E W [PyStr ''abc'', PyBool False] = (Undefined, W)"
  by (simp add: py_slp_escape_def py_slp_unescape_def PyArg_ParseTuple_def convert_arg_def)

text \<open>
  C7. The claim says that escaping a string with a character illegal in a tag, with the
  tag flag set, raises the error named \<open>SLP_PARAMETER_BAD\<close>. On the code the call with
  the string \<open>a*b\<close> and the flag set (as \<open>True\<close> or as 1) has no defined result: the flag
  never reaches the native function, whatever that function would answer.
\<close>

theorem escape_tag_undefined:
  "py_slp_escape E W [PyStr ''a*b'', PyBool True] = (Undefined, W) \<and>
   py_slp_escape E W [PyStr ''a*b'', PyLong 1] = (Undefined, W)"
  by (simp add: py_slp_escape_def PyArg_ParseTuple_def convert_arg_def)

subsection \<open>The property store\<close>

lemma props_record_call: "props (record_call c W) = props W"
  by (simp add: record_call_def)

lemma props_Py_INCREF: "props (Py_INCREF ob W) = props W"
  by (simp add: Py_INCREF_def)

lemma props_set_property: "props (snd (py_slp_set_property E W args)) = props W"
  by (cases "parse_ok args ''zz''")
     (auto simp: py_slp_set_property_def SLPSetProperty_def props_record_call props_Py_INCREF
           dest!: shape_zz not_parse_ok)

lemma fst_get_property:
  "fst (py_slp_get_property E W args) =
    (case PyArg_ParseTuple args ''s'' of
       Inl e \<Rightarrow> ArgError e
     | Inr [CStr (Some name)] \<Rightarrow>
         (case props W name of
            Some val \<Rightarrow> built (Py_BuildValue_z (Some val))
          | None \<Rightarrow> Returned PyNone)
     | Inr _ \<Rightarrow> Undefined)"
  by (simp add: py_slp_get_property_def SLPGetProperty_def
      split: sum.splits list.splits cval.splits option.splits)

text \<open>
  C5. A set leaves the property store as it was, for all arguments; a get after the set
  gives what the same get gave before it; and for every name and value that the format
  \<^verbatim>\<open>zz\<close> accepts (a string or \<open>None\<close> each) the set succeeds with \<open>None\<close>.
\<close>

theorem set_property_noop:
  "props (snd (py_slp_set_property E W args)) = props W \<and>
   fst (py_slp_get_property E (snd (py_slp_set_property E W args)) args') =
     fst (py_slp_get_property E W args') \<and>
   (parse_ok args ''zz'' \<longrightarrow> fst (py_slp_set_property E W args) = Returned PyNone)"
proof (intro conjI impI)
  show "props (snd (py_slp_set_property E W args)) = props W" by (rule props_set_property)
  show "fst (py_slp_get_property E (snd (py_slp_set_property E W args)) args') =
     fst (py_slp_get_property E W args')"
    by (simp only: fst_get_property props_set_property)
  assume "parse_ok args ''zz''"
  then show "fst (py_slp_set_property E W args) = Returned PyNone"
    by (auto simp: py_slp_set_property_def dest!: shape_zz)
qed

text \<open>
  The store holds \<open>DEFAULT\<close> for a property; setting it to \<open>A\<close> succeeds, and the get
  after the set still gives \<open>DEFAULT\<close>.
\<close>

theorem set_property_noop_witness:
  "parse_ok [PyStr ''net.slp.useScopes'', PyStr ''A''] ''zz'' \<and>
   fst (py_slp_set_property env0 world0 [PyStr ''net.slp.useScopes'', PyStr ''A'']) =
     Returned PyNone \<and>
   fst (py_slp_get_property env0
          (snd (py_slp_set_property env0 world0 [PyStr ''net.slp.useScopes'', PyStr ''A'']))
          [PyStr ''net.slp.useScopes'']) = Returned (PyStr ''DEFAULT'')"
proof -
  have p: "parse_ok [PyStr ''net.slp.useScopes'', PyStr ''A''] ''zz''"
    by (simp add: parse_ok_def PyArg_ParseTuple_def convert_arg_def)
  have g: "fst (py_slp_get_property env0 world0 [PyStr ''net.slp.useScopes'']) =
      Returned (PyStr ''DEFAULT'')"
    by (simp add: py_slp_get_property_def PyArg_ParseTuple_def convert_arg_def
        SLPGetProperty_def world0_def record_call_def utf8_valid_examples)
  from set_property_noop [of env0 world0 "[PyStr ''net.slp.useScopes'', PyStr ''A'']"
      "[PyStr ''net.slp.useScopes'']"] p g
  show ?thesis by simp
qed

subsection \<open>Handle validation\<close>

lemma get_slp_handle_invalid:
  "alive W h \<Longrightarrow> \<not> PyCapsule_IsValid h None \<Longrightarrow> get_slp_handle W h = Some 0"
  by (simp add: get_slp_handle_def)

lemma get_slp_handle_valid:
  "alive W h \<Longrightarrow> PyCapsule_IsValid h None \<Longrightarrow>
    \<exists>p. get_slp_handle W h = Some p \<and> p \<noteq> 0 \<and> h = PyCapsule p None"
  by (cases h) (auto simp: get_slp_handle_def)

lemma get_slp_handle_dead: "\<not> alive W h \<Longrightarrow> get_slp_handle W h = None"
  by (simp add: get_slp_handle_def)

lemma slpfunc_prep_args_invalid:
  "alive W h \<Longrightarrow> \<not> PyCapsule_IsValid h None \<Longrightarrow>
    slpfunc_prep_args E h cb ck W = Inl (Raised TypeError ''Invalid SLP handle'')"
  by (simp add: slpfunc_prep_args_def get_slp_handle_invalid)

lemma location_func_prep_invalid:
  assumes "alive W h" and "\<not> PyCapsule_IsValid h None" and "parse_ok (h # rest) ''OzzzOO''"
  shows "location_func_prep E (h # rest) W = Inl (Raised TypeError ''Invalid SLP handle'')"
  using shape_OzzzOO [OF assms(3)] assms(1,2)
  by (auto simp: location_func_prep_def slpfunc_prep_args_invalid)

lemma py_slp_findsrvs_invalid:
  "alive W h \<Longrightarrow> \<not> PyCapsule_IsValid h None \<Longrightarrow> parse_ok (h # rest) ''OzzzOO'' \<Longrightarrow>
    py_slp_findsrvs E W (h # rest) = (Raised TypeError ''Invalid SLP handle'', W)"
  by (simp add: py_slp_findsrvs_def location_func_prep_invalid)

lemma py_slp_findattrs_invalid:
  "alive W h \<Longrightarrow> \<not> PyCapsule_IsValid h None \<Longrightarrow> parse_ok (h # rest) ''OzzzOO'' \<Longrightarrow>
    py_slp_findattrs E W (h # rest) = (Raised TypeError ''Invalid SLP handle'', W)"
  by (simp add: py_slp_findattrs_def location_func_prep_invalid)

lemma py_slp_findsrvtypes_invalid:
  assumes "alive W h" and "\<not> PyCapsule_IsValid h None" and "parse_ok (h # rest) ''OzzOO''"
  shows "py_slp_findsrvtypes E W (h # rest) = (Raised TypeError ''Invalid SLP handle'', W)"
  using shape_OzzOO [OF assms(3)] assms(1,2)
  by (auto simp: py_slp_findsrvtypes_def slpfunc_prep_args_invalid)

lemma py_slp_dereg_invalid:
  assumes "alive W h" and "\<not> PyCapsule_IsValid h None" and "parse_ok (h # rest) ''OsOO''"
  shows "py_slp_dereg E W (h # rest) = (Raised TypeError ''Invalid SLP handle'', W)"
  using shape_OsOO [OF assms(3)] assms(1,2)
  by (auto simp: py_slp_dereg_def slpfunc_prep_args_invalid)

lemma py_slp_delattrs_invalid:
  assumes "alive W h" and "\<not> PyCapsule_IsValid h None" and "parse_ok (h # rest) ''OssOO''"
  shows "py_slp_delattrs E W (h # rest) = (Raised TypeError ''Invalid SLP handle'', W)"
  using shape_OssOO [OF assms(3)] assms(1,2)
  by (auto simp: py_slp_delattrs_def slpfunc_prep_args_invalid)

lemma parse_O_single: "PyArg_ParseTuple [h] ''O'' = Inr [CObj h]"
  by (simp add: PyArg_ParseTuple_def convert_arg_def)

lemma py_slp_close_invalid:
  "alive W h \<Longrightarrow> \<not> PyCapsule_IsValid h None \<Longrightarrow>
    py_slp_close E W [h] =
      (Raised TypeError ''The argument to SLPClose doesn't seem to be a valid SLP handle'', W)"
  by (simp add: py_slp_close_def parse_O_single get_slp_handle_invalid)

lemma py_slp_find_scopes_invalid:
  "alive W h \<Longrightarrow> \<not> PyCapsule_IsValid h None \<Longrightarrow>
    py_slp_find_scopes E W [h] =
      (Raised TypeError ''The argument doesn't seem to be a valid SLP handle'', W)"
  by (simp add: py_slp_find_scopes_def parse_O_single get_slp_handle_invalid)

text \<open>What a close does to a capsule that is alive, and to one that is not.\<close>

lemma py_slp_close_valid:
  "alive W (PyCapsule p None) \<Longrightarrow> p \<noteq> 0 \<Longrightarrow>
    py_slp_close E W [PyCapsule p None] =
      (Returned PyNone, Py_INCREF PyNone (Py_DECREF (PyCapsule p None) (SLPClose p W)))"
  by (simp add: py_slp_close_def parse_O_single get_slp_handle_def)

lemma py_slp_close_dead: "\<not> alive W h \<Longrightarrow> py_slp_close E W [h] = (Undefined, W)"
  by (simp add: py_slp_close_def parse_O_single get_slp_handle_dead)

text \<open>
  In \<^verbatim>\<open>py_slp_reg\<close> every list of arguments that the format accepts has gone through
  the store past \<^verbatim>\<open>lifetime\<close>.
\<close>

lemma py_slp_reg_parsed: "parse_ok args ''OsizzOOO'' \<Longrightarrow> py_slp_reg E W args = (Undefined, W)"
  by (auto simp: py_slp_reg_def dest!: shape_OsizzOOO)

text \<open>
  C6 (amended). Each of close, find-scopes, find-services, find-attributes,
  find-service-types, deregister and delete-attributes, given arguments that its format
  accepts and as handle an object (alive) that is not a valid handle capsule, fails
  with \<open>TypeError\<close> and leaves the world as it was: no native function is called. In
  particular, closing an invalid handle fails with \<open>TypeError\<close>.
\<close>

theorem handle_validation:
  assumes "alive W h" and "\<not> PyCapsule_IsValid h None"
  shows
   "py_slp_close E W [h] =
      (Raised TypeError ''The argument to SLPClose doesn't seem to be a valid SLP handle'', W) \<and>
    py_slp_find_scopes E W [h] =
      (Raised TypeError ''The argument doesn't seem to be a valid SLP handle'', W) \<and>
    (parse_ok (h # rest) ''OzzzOO'' \<longrightarrow>
       py_slp_findsrvs E W (h # rest) = (Raised TypeError ''Invalid SLP handle'', W) \<and>
       py_slp_findattrs E W (h # rest) = (Raised TypeError ''Invalid SLP handle'', W)) \<and>
    (parse_ok (h # rest) ''OzzOO'' \<longrightarrow>
       py_slp_findsrvtypes E W (h # rest) = (Raised TypeError ''Invalid SLP handle'', W)) \<and>
    (parse_ok (h # rest) ''OsOO'' \<longrightarrow>
       py_slp_dereg E W (h # rest) = (Raised TypeError ''Invalid SLP handle'', W)) \<and>
    (parse_ok (h # rest) ''OssOO'' \<longrightarrow>
       py_slp_delattrs E W (h # rest) = (Raised TypeError ''Invalid SLP handle'', W))"
  using assms
  by (simp add: py_slp_close_invalid py_slp_find_scopes_invalid py_slp_findsrvs_invalid
      py_slp_findattrs_invalid py_slp_findsrvtypes_invalid py_slp_dereg_invalid
      py_slp_delattrs_invalid)

text \<open>
  An integer in place of the handle is refused by each of the seven operations, and the
  world is untouched.
\<close>

theorem handle_validation_witness:
  "py_slp_close env0 world0 [PyLong 5] =
     (Raised TypeError ''The argument to SLPClose doesn't seem to be a valid SLP handle'', world0) \<and>
   py_slp_find_scopes env0 world0 [PyLong 5] =
     (Raised TypeError ''The argument doesn't seem to be a valid SLP handle'', world0) \<and>
   py_slp_findsrvs env0 world0 [PyLong 5, PyStr ''service:foo'', PyNone, PyNone, PyFunc 11, PyNone] =
     (Raised TypeError ''Invalid SLP handle'', world0) \<and>
   py_slp_findattrs env0 world0 [PyLong 5, PyStr ''service:foo'', PyNone, PyNone, PyFunc 11, PyNone] =
     (Raised TypeError ''Invalid SLP handle'', world0) \<and>
   py_slp_findsrvtypes env0 world0 [PyLong 5, PyStr ''*'', PyNone, PyFunc 11, PyNone] =
     (Raised TypeError ''Invalid SLP handle'', world0) \<and>
   py_slp_dereg env0 world0 [PyLong 5, PyStr ''service:foo://host'', PyFunc 11, PyNone] =
     (Raised TypeError ''Invalid SLP handle'', world0) \<and>
   py_slp_delattrs env0 world0 [PyLong 5, PyStr ''service:foo://host'', PyStr ''a'', PyFunc 11, PyNone] =
     (Raised TypeError ''Invalid SLP handle'', world0)"
proof -
  have a: "alive world0 (PyLong 5)" by (simp add: alive_def world0_def)
  have i: "\<not> PyCapsule_IsValid (PyLong 5) None" by simp
  have p1: "parse_ok [PyLong 5, PyStr ''service:foo'', PyNone, PyNone, PyFunc 11, PyNone] ''OzzzOO''"
    by (simp add: parse_ok_def PyArg_ParseTuple_def convert_arg_def)
  have p2: "parse_ok [PyLong 5, PyStr ''*'', PyNone, PyFunc 11, PyNone] ''OzzOO''"
    by (simp add: parse_ok_def PyArg_ParseTuple_def convert_arg_def)
  have p4: "parse_ok [PyLong 5, PyStr ''service:foo://host'', PyFunc 11, PyNone] ''OsOO''"
    by (simp add: parse_ok_def PyArg_ParseTuple_def convert_arg_def)
  have p5: "parse_ok [PyLong 5, PyStr ''service:foo://host'', PyStr ''a'', PyFunc 11, PyNone] ''OssOO''"
    by (simp add: parse_ok_def PyArg_ParseTuple_def convert_arg_def)
  note T = handle_validation [OF a i, where E = env0]
  from T [of "[PyStr ''service:foo'', PyNone, PyNone, PyFunc 11, PyNone]"] p1
  have A: "py_slp_close env0 world0 [PyLong 5] =
     (Raised TypeError ''The argument to SLPClose doesn't seem to be a valid SLP handle'', world0) \<and>
   py_slp_find_scopes env0 world0 [PyLong 5] =
     (Raised TypeError ''The argument doesn't seem to be a valid SLP handle'', world0) \<and>
   py_slp_findsrvs env0 world0 [PyLong 5, PyStr ''service:foo'', PyNone, PyNone, PyFunc 11, PyNone] =
     (Raised TypeError ''Invalid SLP handle'', world0) \<and>
   py_slp_findattrs env0 world0 [PyLong 5, PyStr ''service:foo'', PyNone, PyNone, PyFunc 11, PyNone] =
     (Raised TypeError ''Invalid SLP handle'', world0)" by blast
  from T [of "[PyStr ''*'', PyNone, PyFunc 11, PyNone]"] p2
  have B: "py_slp_findsrvtypes env0 world0 [PyLong 5, PyStr ''*'', PyNone, PyFunc 11, PyNone] =
     (Raised TypeError ''Invalid SLP handle'', world0)" by blast
  from T [of "[PyStr ''service:foo://host'', PyFunc 11, PyNone]"] p4
  have D: "py_slp_dereg env0 world0 [PyLong 5, PyStr ''service:foo://host'', PyFunc 11, PyNone] =
     (Raised TypeError ''Invalid SLP handle'', world0)" by blast
  from T [of "[PyStr ''service:foo://host'', PyStr ''a'', PyFunc 11, PyNone]"] p5
  have F: "py_slp_delattrs env0 world0
       [PyLong 5, PyStr ''service:foo://host'', PyStr ''a'', PyFunc 11, PyNone] =
     (Raised TypeError ''Invalid SLP handle'', world0)" by blast
  from A B D F show ?thesis by blast
qed

lemma open_result:
  "py_slp_open env0 world0 [PyNone, PyBool False] =
    (Returned (PyCapsule 7 None),
     world0\<lparr>sessions := {7}, ob_refcnt := (\<lambda>ob. if ob = PyCapsule 7 None then 2 else 1),
            native_log := [N_SLPOpen None 0]\<rparr>)"
  by (simp add: py_slp_open_def PyArg_ParseTuple_def convert_arg_def SLPOpen_def SLP_OK_def
      PyCapsule_New_def Py_INCREF_def record_call_def env0_def world0_def fun_eq_iff)

lemma first_close_result:
  "py_slp_close env0 (snd (py_slp_open env0 world0 [PyNone, PyBool False])) [PyCapsule 7 None] =
    (Returned PyNone,
     world0\<lparr>sessions := {},
            ob_refcnt := (\<lambda>ob. if ob = PyNone then 2 else 1),
            native_log := [N_SLPOpen None 0, N_SLPClose 7]\<rparr>)"
  unfolding open_result
  by (simp add: py_slp_close_def parse_O_single get_slp_handle_def alive_def SLPClose_def
      Py_INCREF_def Py_DECREF_def record_call_def world0_def fun_eq_iff)

lemma second_close_result:
  "py_slp_close env0
     (snd (py_slp_close env0 (snd (py_slp_open env0 world0 [PyNone, PyBool False]))
             [PyCapsule 7 None]))
     [PyCapsule 7 None] =
    (Returned PyNone,
     world0\<lparr>sessions := {},
            ob_refcnt := (\<lambda>ob. if ob = PyNone then 3 else if ob = PyCapsule 7 None then 0 else 1),
            native_log := [N_SLPOpen None 0, N_SLPClose 7, N_SLPClose 7]\<rparr>)"
  unfolding first_close_result
  by (simp add: py_slp_close_def parse_O_single get_slp_handle_def alive_def SLPClose_def
      Py_INCREF_def Py_DECREF_def record_call_def world0_def fun_eq_iff)

text \<open>
  The second close drops the last reference to the capsule: it is deallocated, and a
  third close of it has no defined result.
\<close>

lemma third_close_undefined:
  "fst (py_slp_close env0
     (snd (py_slp_close env0
        (snd (py_slp_close env0 (snd (py_slp_open env0 world0 [PyNone, PyBool False]))
                [PyCapsule 7 None]))
        [PyCapsule 7 None]))
     [PyCapsule 7 None]) = Undefined"
  unfolding second_close_result
  by (simp add: py_slp_close_dead alive_def)

text \<open>
  C6 as stated fails in three places. A handle is opened and closed; the second close
  of the same handle does not fail with \<open>TypeError\<close>: it returns \<open>None\<close>, and the native
  close has been called twice on the handle. Deregister with an integer in place of
  the handle and a service URL with an embedded null character fails in the argument
  parser with \<open>ValueError\<close>, before any look at the handle. Register with an integer in
  place of the handle and arguments that its format accepts has no defined result: the
  parser has written past \<^verbatim>\<open>lifetime\<close> before the handle is looked at.
\<close>

theorem second_close_not_rejected:
  "fst (py_slp_open env0 world0 [PyNone, PyBool False]) = Returned (PyCapsule 7 None) \<and>
   fst (py_slp_close env0 (snd (py_slp_open env0 world0 [PyNone, PyBool False]))
          [PyCapsule 7 None]) = Returned PyNone \<and>
   fst (py_slp_close env0
          (snd (py_slp_close env0 (snd (py_slp_open env0 world0 [PyNone, PyBool False]))
                  [PyCapsule 7 None]))
          [PyCapsule 7 None]) = Returned PyNone \<and>
   native_log
     (snd (py_slp_close env0
          (snd (py_slp_close env0 (snd (py_slp_open env0 world0 [PyNone, PyBool False]))
                  [PyCapsule 7 None]))
          [PyCapsule 7 None])) = [N_SLPOpen None 0, N_SLPClose 7, N_SLPClose 7] \<and>
   py_slp_dereg env0 world0 [PyLong 5, PyStr [CHR ''a'', CHR 0x00, CHR ''b''], PyFunc 11, PyNone] =
     (ArgError ValueError, world0) \<and>
   py_slp_reg env0 world0
       [PyLong 5, PyStr ''service:foo://host'', PyLong 60, PyNone, PyStr ''(a=1)'', PyBool True,
        PyFunc 11, PyNone] = (Undefined, world0)"
proof (intro conjI)
  show "py_slp_dereg env0 world0
      [PyLong 5, PyStr [CHR ''a'', CHR 0x00, CHR ''b''], PyFunc 11, PyNone] =
     (ArgError ValueError, world0)"
    by (simp add: py_slp_dereg_def PyArg_ParseTuple_def convert_arg_def)
  show "py_slp_reg env0 world0
       [PyLong 5, PyStr ''service:foo://host'', PyLong 60, PyNone, PyStr ''(a=1)'', PyBool True,
        PyFunc 11, PyNone] = (Undefined, world0)"
    by (simp add: py_slp_reg_def PyArg_ParseTuple_def convert_arg_def)
  show "fst (py_slp_open env0 world0 [PyNone, PyBool False]) = Returned (PyCapsule 7 None)"
    by (simp add: open_result)
  show "fst (py_slp_close env0 (snd (py_slp_open env0 world0 [PyNone, PyBool False]))
          [PyCapsule 7 None]) = Returned PyNone"
    by (simp add: first_close_result)
  show "fst (py_slp_close env0
          (snd (py_slp_close env0 (snd (py_slp_open env0 world0 [PyNone, PyBool False]))
                  [PyCapsule 7 None]))
          [PyCapsule 7 None]) = Returned PyNone"
    by (simp add: second_close_result)
  show "native_log
     (snd (py_slp_close env0
          (snd (py_slp_close env0 (snd (py_slp_open env0 world0 [PyNone, PyBool False]))
                  [PyCapsule 7 None]))
          [PyCapsule 7 None])) = [N_SLPOpen None 0, N_SLPClose 7, N_SLPClose 7]"
    by (simp add: second_close_result)
qed

subsection \<open>Parsing service URLs\<close>

lemma parse_example:
  "SLPParseSrvURL (Some ''service:foo://host:123/part'') = srv_url ''foo'' ''host'' 123 ''/part''"
  by (simp add: SLPParseSrvURL_def parse_port_def is_digit_def)

lemma parse_empty: "SLPParseSrvURL (Some []) = (SLP_PARSE_ERROR, None)"
  by (simp add: SLPParseSrvURL_def)

lemma parse_no_port:
  assumes t: "t \<noteq> []" "CHR ''/'' \<notin> set t"
      and h: "h \<noteq> []" "CHR '':'' \<notin> set h" "CHR ''/'' \<notin> set h"
      and p: "p = [] \<or> hd p = CHR ''/''"
  shows "SLPParseSrvURL (Some (''service:'' @ t @ ''://'' @ h @ p)) = srv_url t h 0 p"
proof -
  let ?slash = "\<lambda>c. c \<noteq> CHR ''/''"
  let ?stop = "\<lambda>c. c \<noteq> CHR '':'' \<and> c \<noteq> CHR ''/''"
  let ?r = "t @ ''://'' @ h @ p"
  have nt: "?slash x" if "x \<in> set t" for x
    using that t(2) by auto
  have nh: "?stop x" if "x \<in> set h" for x
    using that h(2,3) by auto
  have "takeWhile ?slash ?r = t @ takeWhile ?slash (''://'' @ h @ p)"
    by (rule takeWhile_append2) (rule nt)
  then have tw: "takeWhile ?slash ?r = t @ '':''" by simp
  have "dropWhile ?slash ?r = dropWhile ?slash (''://'' @ h @ p)"
    by (rule dropWhile_append2) (rule nt)
  then have dw: "dropWhile ?slash ?r = ''//'' @ h @ p" by simp
  have hp: "takeWhile ?stop p = []" "dropWhile ?stop p = p"
    using p by (cases p; simp)+
  have "takeWhile ?stop (h @ p) = h @ takeWhile ?stop p"
    by (rule takeWhile_append2) (rule nh)
  then have th: "takeWhile ?stop (h @ p) = h" by (simp add: hp)
  have "dropWhile ?stop (h @ p) = dropWhile ?stop p"
    by (rule dropWhile_append2) (rule nh)
  then have dh: "dropWhile ?stop (h @ p) = p" by (simp add: hp)
  have len: "\<not> length (t @ '':'') < 2" using t(1) by (cases t) auto
  have pre: "take 8 (''service:'' @ ?r) = ''service:''" "drop 8 (''service:'' @ ?r) = ?r"
    by simp_all
  have mid: "take 2 (''//'' @ h @ p) = ''//''" "drop 2 (''//'' @ h @ p) = h @ p"
    by simp_all
  show ?thesis
    unfolding SLPParseSrvURL_def option.case pre Let_def tw dw mid th dh
    using p h(1) len by (cases p) simp_all
qed

text \<open>
  C8. Parsing \<^verbatim>\<open>service:foo://host:123/part\<close> gives the type \<open>foo\<close>, the host \<open>host\<close>, the
  port 123 and the part \<open>/part\<close>; parsing the empty string fails with the parse error,
  which the module raises under the name \<open>SLP_PARSE_ERROR\<close>; and every URL
  \<^verbatim>\<open>service:<srvtype>://<host>[/<srvpart>]\<close> without a port component parses with the
  port 0.
\<close>

theorem parse_srvurl:
  "fst (py_slp_parse_srvurl E W [PyStr ''service:foo://host:123/part'']) =
     Returned (PyTuple [PyStr ''foo'', PyStr ''host'', PyLong 123, PyStr [], PyStr ''/part'']) \<and>
   fst (py_slp_parse_srvurl E W [PyStr []]) = Raised RuntimeError ''SLP_PARSE_ERROR'' \<and>
   SLPParseSrvURL (Some []) = (SLP_PARSE_ERROR, None) \<and>
   (t \<noteq> [] \<and> CHR ''/'' \<notin> set t \<and> h \<noteq> [] \<and> CHR '':'' \<notin> set h \<and> CHR ''/'' \<notin> set h \<and>
    (p = [] \<or> hd p = CHR ''/'') \<longrightarrow>
      (\<exists>u. SLPParseSrvURL (Some (''service:'' @ t @ ''://'' @ h @ p)) = (SLP_OK, Some u) \<and>
           s_pcSrvType u = Some t \<and> s_pcHost u = Some h \<and> s_iPort u = 0 \<and>
           s_pcSrvPart u = Some p))"
proof (intro conjI impI)
  show "fst (py_slp_parse_srvurl E W [PyStr ''service:foo://host:123/part'']) =
     Returned (PyTuple [PyStr ''foo'', PyStr ''host'', PyLong 123, PyStr [], PyStr ''/part''])"
    by (simp add: py_slp_parse_srvurl_def PyArg_ParseTuple_def convert_arg_def parse_example
        srv_url_def SLP_OK_def Py_BuildValue_tuple_def utf8_valid_examples)
  show "fst (py_slp_parse_srvurl E W [PyStr []]) = Raised RuntimeError ''SLP_PARSE_ERROR''"
    by (simp add: py_slp_parse_srvurl_def PyArg_ParseTuple_def convert_arg_def parse_empty
        SLP_PARSE_ERROR_def SLP_OK_def raise_slp_error_def get_slp_error_msg_def err_msg_def)
  show "SLPParseSrvURL (Some []) = (SLP_PARSE_ERROR, None)" by (rule parse_empty)
next
  assume "t \<noteq> [] \<and> CHR ''/'' \<notin> set t \<and> h \<noteq> [] \<and> CHR '':'' \<notin> set h \<and> CHR ''/'' \<notin> set h \<and>
    (p = [] \<or> hd p = CHR ''/'')"
  then have "SLPParseSrvURL (Some (''service:'' @ t @ ''://'' @ h @ p)) = srv_url t h 0 p"
    by (intro parse_no_port) simp_all
  then show "\<exists>u. SLPParseSrvURL (Some (''service:'' @ t @ ''://'' @ h @ p)) = (SLP_OK, Some u) \<and>
           s_pcSrvType u = Some t \<and> s_pcHost u = Some h \<and> s_iPort u = 0 \<and>
           s_pcSrvPart u = Some p"
    by (simp add: srv_url_def)
qed

text \<open>A URL without a port, with a two-part service type and a service part.\<close>

theorem parse_srvurl_witness:
  "SLPParseSrvURL (Some ''service:printer:lpr://printhost/queue1'') =
     (SLP_OK, Some \<lparr>s_pcSrvType = Some ''printer:lpr'', s_pcHost = Some ''printhost'',
                     s_iPort = 0, s_pcNetFamily = Some [], s_pcSrvPart = Some ''/queue1''\<rparr>)"
proof -
  have "\<exists>u. SLPParseSrvURL (Some (''service:'' @ ''printer:lpr'' @ ''://'' @ ''printhost'' @ ''/queue1''))
          = (SLP_OK, Some u) \<and>
           s_pcSrvType u = Some ''printer:lpr'' \<and> s_pcHost u = Some ''printhost'' \<and> s_iPort u = 0 \<and>
           s_pcSrvPart u = Some ''/queue1''"
    using parse_srvurl [of env0 world0 "''printer:lpr''" "''printhost''" "''/queue1''"]
    by simp
  then obtain u where u: "SLPParseSrvURL (Some ''service:printer:lpr://printhost/queue1'') = (SLP_OK, Some u)"
    "s_pcSrvType u = Some ''printer:lpr''" "s_pcHost u = Some ''printhost''" "s_iPort u = 0"
    "s_pcSrvPart u = Some ''/queue1''" by auto
  have "s_pcNetFamily u = Some []"
    using u(1) by (auto simp: SLPParseSrvURL_def srv_url_def parse_port_def)
  with u show ?thesis by (cases u) simp
qed

subsection \<open>The refresh interval\<close>

lemma sint_ucast_16_32: "sint (ucast (w :: 16 word) :: 32 word) = uint w"
proof -
  have "uint w < 2 ^ 16" using uint_bounded [of w] by simp
  then have hi: "uint w < 2 ^ 31" by simp
  have lo: "- (2 ^ 31) \<le> uint w"
    by (rule order_trans [of _ 0]) simp_all
  have "signed_take_bit 31 (uint w) = uint w"
    using lo hi by (rule signed_take_bit_int_eq_self)
  then show ?thesis by (simp add: signed_ucast_eq)
qed

text \<open>
  C9. Whatever the arguments and whatever the native library answers, the
  minimum-refresh-interval operation returns a Python integer, and the integer is not
  negative (it is at most 65535): the native value is an \<^verbatim>\<open>unsigned short\<close>, and its
  promotion to the \<^verbatim>\<open>int\<close> that the unit \<^verbatim>\<open>i\<close> reads keeps it.
\<close>

theorem refresh_interval_nonneg:
  "\<exists>n. fst (py_slp_get_refresh_interval E W args) = Returned (PyLong n) \<and> 0 \<le> n \<and> n \<le> 65535"
proof -
  have "uint (lib_refresh_interval E) < 2 ^ 16"
    using uint_bounded [of "lib_refresh_interval E"] by simp
  then show ?thesis
    by (simp add: py_slp_get_refresh_interval_def sint_ucast_16_32)
qed

subsection \<open>Opening a handle\<close>

lemma sessions_simps:
  "sessions (record_call c W) = sessions W"
  "sessions (Py_INCREF ob W) = sessions W"
  "sessions (SLPClose h W) = sessions W - {h}"
  by (simp_all add: record_call_def Py_INCREF_def SLPClose_def)

lemma SLPOpen_cases:
  "SLPOpen E lang isasync W = (err, hslp, W1) \<Longrightarrow>
    lib_open E lang isasync = (err, hslp) \<and>
    native_log W1 = native_log W @ [N_SLPOpen lang isasync] \<and>
    sessions W1 = (if err = SLP_OK then insert hslp (sessions W) else sessions W)"
  by (auto simp: SLPOpen_def record_call_def split: prod.splits if_splits)

lemma py_slp_open_error_sessions:
  "is_error (fst (py_slp_open E W args)) \<Longrightarrow> sessions (snd (py_slp_open E W args)) \<subseteq> sessions W"
proof (cases "parse_ok args ''zi''")
  case False
  then show ?thesis by (auto simp: py_slp_open_def dest!: not_parse_ok)
next
  case True
  assume e: "is_error (fst (py_slp_open E W args))"
  from shape_zi [OF True] obtain lang isasync where
    p: "PyArg_ParseTuple args ''zi'' = Inr [CStr lang, CInt isasync]" by blast
  obtain err hslp W1 where o: "SLPOpen E lang isasync W = (err, hslp, W1)"
    by (cases "SLPOpen E lang isasync W") auto
  note oc = SLPOpen_cases [OF o]
  show ?thesis
  proof (cases "err = SLP_OK")
    case False
    with p o oc show ?thesis by (simp add: py_slp_open_def)
  next
    case ok: True
    show ?thesis
    proof (cases "PyCapsule_New E hslp W1")
      case (Inl x)
      with p o oc ok show ?thesis
        by (cases x) (auto simp: py_slp_open_def sessions_simps)
    next
      case (Inr y)
      with p o ok e show ?thesis
        by (cases y) (simp add: py_slp_open_def)
    qed
  qed
qed

lemma py_slp_open_capsule_failure:
  assumes p: "PyArg_ParseTuple args ''zi'' = Inr [CStr lang, CInt isasync]"
      and l: "lib_open E lang isasync = (SLP_OK, hslp)"
      and c: "hslp = 0 \<or> \<not> capsule_alloc_ok E"
  shows "is_error (fst (py_slp_open E W args)) \<and>
         hslp \<notin> sessions (snd (py_slp_open E W args)) \<and>
         native_log (snd (py_slp_open E W args)) =
           native_log W @ [N_SLPOpen lang isasync, N_SLPClose hslp]"
  using c
  by (auto simp: py_slp_open_def p SLPOpen_def l PyCapsule_New_def SLPClose_def record_call_def)

text \<open>
  C10. Whenever open gives an error result, no native session is allocated that was not
  allocated before the call. In particular, when the arguments parse, the native open
  succeeds with a handle and the capsule for it cannot be created, open gives an error
  result, the handle is not among the open sessions afterwards, and the native calls
  made are the open followed by the close of that handle.
\<close>

theorem open_failure_releases_session:
  "(is_error (fst (py_slp_open E W args)) \<longrightarrow>
      sessions (snd (py_slp_open E W args)) \<subseteq> sessions W) \<and>
   (PyArg_ParseTuple args ''zi'' = Inr [CStr lang, CInt isasync] \<and>
    lib_open E lang isasync = (SLP_OK, hslp) \<and> (hslp = 0 \<or> \<not> capsule_alloc_ok E) \<longrightarrow>
      is_error (fst (py_slp_open E W args)) \<and>
      hslp \<notin> sessions (snd (py_slp_open E W args)) \<and>
      native_log (snd (py_slp_open E W args)) =
        native_log W @ [N_SLPOpen lang isasync, N_SLPClose hslp])"
  using py_slp_open_error_sessions py_slp_open_capsule_failure by blast

text \<open>
  With an environment where the capsule cannot be allocated: the native open returns the
  handle 7, open fails, no session is left and the handle was closed.
\<close>

theorem open_failure_releases_session_witness:
  "PyArg_ParseTuple [PyStr ''en'', PyBool False] ''zi'' = Inr [CStr (Some ''en''), CInt 0] \<and>
   lib_open (env0\<lparr>capsule_alloc_ok := False\<rparr>) (Some ''en'') 0 = (SLP_OK, 7) \<and>
   is_error (fst (py_slp_open (env0\<lparr>capsule_alloc_ok := False\<rparr>) world0 [PyStr ''en'', PyBool False])) \<and>
   sessions (snd (py_slp_open (env0\<lparr>capsule_alloc_ok := False\<rparr>) world0 [PyStr ''en'', PyBool False]))
     = {} \<and>
   native_log (snd (py_slp_open (env0\<lparr>capsule_alloc_ok := False\<rparr>) world0 [PyStr ''en'', PyBool False]))
     = [N_SLPOpen (Some ''en'') 0, N_SLPClose 7]"
proof -
  let ?E = "env0\<lparr>capsule_alloc_ok := False\<rparr>"
  have p: "PyArg_ParseTuple [PyStr ''en'', PyBool False] ''zi'' = Inr [CStr (Some ''en''), CInt 0]"
    by (simp add: PyArg_ParseTuple_def convert_arg_def)
  have l: "lib_open ?E (Some ''en'') 0 = (SLP_OK, 7)"
    by (simp add: env0_def SLP_OK_def)
  have c: "(7::nat) = 0 \<or> \<not> capsule_alloc_ok ?E"
    by (simp add: env0_def)
  have w: "sessions world0 = {}" "native_log world0 = []"
    by (simp_all add: world0_def)
  from open_failure_releases_session [of ?E world0 "[PyStr ''en'', PyBool False]" "Some ''en''" 0 7]
    p l c w
  show ?thesis by simp
qed

end
